theory Spec2Isabelle
  imports Main "HOL-Library.AList" "HOL-Library.Sublist"
begin

section \<open>JavaScript values\<close>

text \<open>
  The values the configuration library hands out. TypeScript's annotations
  (\<open>config.get<boolean>\<close>) are erased at run time, so a setting can hold a value of
  any of these shapes. Numbers are the integer-valued ones.
\<close>

datatype jsval = JUndefined | JNull | JBool bool | JNum int | JStr string

definition digit_char :: "nat \<Rightarrow> char" where
  "digit_char d = ''0123456789'' ! d"

fun digits :: "nat \<Rightarrow> string" where
  "digits n = (if n < 10 then [digit_char n] else digits (n div 10) @ [digit_char (n mod 10)])"

declare digits.simps [simp del]

text \<open>ToString, as string concatenation (\<open>'a' + v\<close>) and computed keys apply it.\<close>

fun toString :: "jsval \<Rightarrow> string" where
  "toString JUndefined = ''undefined''"
| "toString JNull = ''null''"
| "toString (JBool b) = (if b then ''true'' else ''false'')"
| "toString (JNum n) = (if n < 0 then CHR ''-'' # digits (nat (- n)) else digits (nat n))"
| "toString (JStr s) = s"

text \<open>
  An object literal read as a dictionary: the entries in source order, a later entry
  with a key already present replacing the value of the earlier one.
\<close>

definition obj :: "(string \<times> 'v) list \<Rightarrow> (string \<times> 'v) list" where
  "obj entries = foldl (\<lambda>acc (k, v). AList.update k v acc) [] entries"

text \<open>\<open>s.indexOf(t)\<close>: the first position of \<open>t\<close> in \<open>s\<close>, or \<open>-1\<close>.\<close>

fun indexOf :: "string \<Rightarrow> string \<Rightarrow> int" where
  "indexOf [] t = (if t = [] then 0 else - 1)"
| "indexOf (c # cs) t =
     (if prefix t (c # cs) then 0
      else (let r = indexOf cs t in if r = - 1 then - 1 else r + 1))"

section \<open>What the module imports\<close>

text \<open>
  The configuration library (\<open>require('config')\<close>): \<open>get\<close> is \<open>config.get\<close>,
  \<open>getConfigSources\<close> is \<open>config.util.getConfigSources()\<close>. What \<open>get\<close> does on a key
  that no source defines is the library's own business; here it is a total function.
\<close>

record config_source =
  name :: string

record config =
  get :: "string \<Rightarrow> jsval"
  getConfigSources :: "config_source list"

text \<open>
  Node's \<open>path.join\<close> (at two arguments) and \<open>path.dirname\<close>, the helpers of
  \<open>helpers/core-utils\<close> (\<open>isTestInstance\<close> and \<open>root\<close> by the value their call
  returns), the file name \<open>require.resolve('config')\<close> gives, and the members of the
  enum \<open>VideoPrivacy\<close>. None of them is defined in this module: they are parameters.
\<close>

record externals =
  join :: "string \<Rightarrow> string \<Rightarrow> string"
  dirname :: "string \<Rightarrow> string"
  buildPath :: "jsval \<Rightarrow> string"
  isTestInstance :: bool
  root :: string
  sanitizeHost :: "string \<Rightarrow> string \<Rightarrow> string"
  sanitizeUrl :: "string \<Rightarrow> string"
  require_resolve_config :: string
  VideoPrivacy_PUBLIC :: jsval
  VideoPrivacy_UNLISTED :: jsval
  VideoPrivacy_PRIVATE :: jsval

text \<open>The Node process: \<open>process.env\<close> and \<open>require.cache\<close>.\<close>

datatype cached_module = Config_module config | Other_module

record node_process =
  process_env :: "string \<rightharpoonup> string"
  require_cache :: "(string \<times> cached_module) list"

text \<open>\<open>if (process.env.X)\<close>: the variable is set and is not the empty string.\<close>

fun truthy :: "string option \<Rightarrow> bool" where
  "truthy None = False"
| "truthy (Some v) = (v \<noteq> [])"

datatype error = Error string

section \<open>The module's state\<close>

text \<open>The fields of \<open>CONFIG\<close> that are evaluated once, when the literal is built.\<close>

record CONFIG_fields =
  CUSTOM_FILE :: string
  LISTEN_PORT :: jsval
  DATABASE_DBNAME :: string
  DATABASE_HOSTNAME :: jsval
  DATABASE_PORT :: jsval
  DATABASE_USERNAME :: jsval
  DATABASE_PASSWORD :: jsval
  STORAGE_AVATARS_DIR :: string
  STORAGE_LOG_DIR :: string
  STORAGE_VIDEOS_DIR :: string
  STORAGE_THUMBNAILS_DIR :: string
  STORAGE_PREVIEWS_DIR :: string
  STORAGE_TORRENTS_DIR :: string
  STORAGE_CACHE_DIR :: string
  WEBSERVER_SCHEME :: string
  WEBSERVER_WS :: string
  WEBSERVER_HOSTNAME :: jsval
  WEBSERVER_PORT :: jsval
  WEBSERVER_URL :: string
  WEBSERVER_HOST :: string

record ACTOR_FOLLOW_SCORE_fields =
  PENALTY :: int
  BONUS :: int
  BASE :: int
  MAX_SCORE :: int

record REMOTE_SCHEME_fields =
  HTTP :: string
  WS :: string

record CONSTRAINTS_FIELDS_fields =
  USERS_USERNAME :: "(string \<times> int) list"
  USERS_PASSWORD :: "(string \<times> int) list"
  USERS_VIDEO_QUOTA :: "(string \<times> int) list"
  VIDEO_ABUSES_REASON :: "(string \<times> int) list"
  VIDEO_CHANNELS_NAME :: "(string \<times> int) list"
  VIDEO_CHANNELS_DESCRIPTION :: "(string \<times> int) list"
  VIDEO_CHANNELS_URL :: "(string \<times> int) list"
  VIDEOS_NAME :: "(string \<times> int) list"
  VIDEOS_TRUNCATED_DESCRIPTION :: "(string \<times> int) list"
  VIDEOS_DESCRIPTION :: "(string \<times> int) list"
  VIDEOS_EXTNAME :: "string list"
  VIDEOS_INFO_HASH :: "(string \<times> int) list"
  VIDEOS_DURATION :: "(string \<times> int) list"
  VIDEOS_TAGS :: "(string \<times> int) list"
  VIDEOS_TAG :: "(string \<times> int) list"
  VIDEOS_THUMBNAIL :: "(string \<times> int) list"
  VIDEOS_THUMBNAIL_DATA :: "(string \<times> int) list"
  VIDEOS_VIEWS :: "(string \<times> int) list"
  VIDEOS_LIKES :: "(string \<times> int) list"
  VIDEOS_DISLIKES :: "(string \<times> int) list"
  VIDEOS_FILE_SIZE :: "(string \<times> int) list"
  VIDEOS_URL :: "(string \<times> int) list"
  ACTORS_PUBLIC_KEY :: "(string \<times> int) list"
  ACTORS_PRIVATE_KEY :: "(string \<times> int) list"
  ACTORS_URL :: "(string \<times> int) list"
  ACTORS_AVATAR_EXTNAME :: "string list"
  ACTORS_AVATAR_FILE_SIZE :: "(string \<times> int) list"
  VIDEO_EVENTS_COUNT :: "(string \<times> int) list"
  VIDEO_COMMENTS_TEXT :: "(string \<times> int) list"
  VIDEO_COMMENTS_URL :: "(string \<times> int) list"

record ACTIVITY_PUB_fields =
  POTENTIAL_ACCEPT_HEADERS :: "string list"
  ACCEPT_HEADER :: string
  PUBLIC :: string
  COLLECTION_ITEMS_PER_PAGE :: int
  FETCH_PAGE_LIMIT :: int
  MAX_HTTP_ATTEMPT :: int
  URL_MIME_TYPES :: "(string \<times> string list) list"
  MAX_RECURSION_COMMENTS :: int
  ACTOR_REFRESH_INTERVAL :: int

text \<open>
  The module variable \<open>config\<close> and every exported binding. Struct-like objects whose
  fields the module reads or assigns are records (nested names joined by \<open>_\<close>;
  \<open>ACTOR_FOLLOW_SCORE.MAX\<close> is \<open>MAX_SCORE\<close>, \<open>MAX\<close> being taken); the other
  object literals are dictionaries, with the property keys as strings
  (\<open>1: 'Music'\<close> has the key \<open>'1'\<close>).
\<close>

record module_state =
  config :: config
  API_VERSION :: string
  AVATARS_SIZE :: "(string \<times> int) list"
  ACCEPT_HEADERS :: "string list"
  BCRYPT_SALT_SIZE :: int
  CACHE_DIRECTORIES_PREVIEWS :: string
  CONFIG :: CONFIG_fields
  CONSTRAINTS_FIELDS :: CONSTRAINTS_FIELDS_fields
  EMBED_SIZE :: "(string \<times> int) list"
  JOB_STATES :: "(string \<times> string) list"
  JOBS_FETCH_LIMIT_PER_CYCLE :: "(string \<times> int) list"
  JOBS_FETCHING_INTERVAL :: int
  JOB_CATEGORIES :: "(string \<times> string) list"
  LAST_MIGRATION_VERSION :: int
  OAUTH_LIFETIME :: "(string \<times> int) list"
  OPENGRAPH_AND_OEMBED_COMMENT :: string
  PAGINATION_COUNT_DEFAULT :: int
  ACTOR_FOLLOW_SCORE :: ACTOR_FOLLOW_SCORE_fields
  PREVIEWS_SIZE :: "(string \<times> int) list"
  REMOTE_SCHEME :: REMOTE_SCHEME_fields
  FOLLOW_STATES :: "(string \<times> string) list"
  SERVER_ACTOR_NAME :: string
  PRIVATE_RSA_KEY_SIZE :: int
  SORTABLE_COLUMNS :: "(string \<times> string list) list"
  STATIC_MAX_AGE :: string
  STATIC_PATHS :: "(string \<times> string) list"
  ACTIVITY_PUB :: ACTIVITY_PUB_fields
  ACTIVITY_PUB_ACTOR_TYPES :: "(string \<times> string) list"
  THUMBNAILS_SIZE :: "(string \<times> int) list"
  VIDEO_CATEGORIES :: "(string \<times> string) list"
  VIDEO_LANGUAGES :: "(string \<times> string) list"
  VIDEO_PRIVACIES :: "(string \<times> string) list"
  VIDEO_LICENCES :: "(string \<times> string) list"
  VIDEO_RATE_TYPES :: "(string \<times> string) list"
  VIDEO_MIMETYPE_EXT :: "(string \<times> string) list"
  AVATAR_MIMETYPE_EXT :: "(string \<times> string) list"
  SCHEDULER_INTERVAL :: int

section \<open>The constants, as the module's top level builds them\<close>

definition SORTABLE_COLUMNS_literal :: "(string \<times> string list) list" where
  "SORTABLE_COLUMNS_literal = obj
    [(''USERS'', [''id'', ''username'', ''createdAt'']),
     (''ACCOUNTS'', [''createdAt'']),
     (''JOBS'', [''id'', ''createdAt'']),
     (''VIDEO_ABUSES'', [''id'', ''createdAt'']),
     (''VIDEO_CHANNELS'', [''id'', ''name'', ''updatedAt'', ''createdAt'']),
     (''VIDEOS'', [''name'', ''duration'', ''createdAt'', ''views'', ''likes'']),
     (''VIDEO_COMMENT_THREADS'', [''createdAt'']),
     (''BLACKLISTS'', [''id'', ''name'', ''duration'', ''views'', ''likes'', ''dislikes'', ''uuid'',
        ''createdAt'']),
     (''FOLLOWERS'', [''createdAt'']),
     (''FOLLOWING'', [''createdAt''])]"

definition OAUTH_LIFETIME_literal :: "(string \<times> int) list" where
  "OAUTH_LIFETIME_literal = obj [(''ACCESS_TOKEN'', 3600 * 4), (''REFRESH_TOKEN'', 1209600)]"

definition ACTOR_FOLLOW_SCORE_literal :: ACTOR_FOLLOW_SCORE_fields where
  "ACTOR_FOLLOW_SCORE_literal = \<lparr> PENALTY = - 10, BONUS = 10, BASE = 1000, MAX_SCORE = 10000 \<rparr>"

definition FOLLOW_STATES_literal :: "(string \<times> string) list" where
  "FOLLOW_STATES_literal = obj [(''PENDING'', ''pending''), (''ACCEPTED'', ''accepted'')]"

definition REMOTE_SCHEME_literal :: REMOTE_SCHEME_fields where
  "REMOTE_SCHEME_literal = \<lparr> HTTP = ''https'', WS = ''wss'' \<rparr>"

definition JOB_STATES_literal :: "(string \<times> string) list" where
  "JOB_STATES_literal = obj
    [(''PENDING'', ''pending''), (''PROCESSING'', ''processing''), (''ERROR'', ''error''),
     (''SUCCESS'', ''success'')]"

definition JOB_CATEGORIES_literal :: "(string \<times> string) list" where
  "JOB_CATEGORIES_literal = obj
    [(''TRANSCODING'', ''transcoding''), (''ACTIVITYPUB_HTTP'', ''activitypub-http'')]"

definition JOBS_FETCH_LIMIT_PER_CYCLE_literal :: "(string \<times> int) list" where
  "JOBS_FETCH_LIMIT_PER_CYCLE_literal = obj [(''transcoding'', 10), (''httpRequest'', 20)]"

text \<open>
  \<open>getLocalConfigFilePath\<close>. The template literals append to \<open>filename\<close> under
  \<open>if (process.env.X)\<close>, which holds when the variable is set to a non-empty string.
\<close>

definition getLocalConfigFilePath :: "externals \<Rightarrow> node_process \<Rightarrow> config \<Rightarrow> error + string" where
  "getLocalConfigFilePath x proc cfg =
     (let configSources = getConfigSources cfg in
      if length configSources = 0 then Inl (Error ''Invalid config source.'')
      else
        let filename = ''local'';
            filename = (if truthy (process_env proc ''NODE_ENV'')
                        then (case process_env proc ''NODE_ENV'' of
                                Some v \<Rightarrow> filename @ ''-'' @ v | None \<Rightarrow> filename)
                        else filename);
            filename = (if truthy (process_env proc ''NODE_APP_INSTANCE'')
                        then (case process_env proc ''NODE_APP_INSTANCE'' of
                                Some v \<Rightarrow> filename @ ''-'' @ v | None \<Rightarrow> filename)
                        else filename)
        in Inr (join x (dirname x (name (configSources ! 0))) (filename @ ''.json'')))"

text \<open>
  The literal of \<open>CONFIG\<close>, given what \<open>getLocalConfigFilePath()\<close> returned. The
  fields below are read from \<open>config\<close> here, once; the accessors declared with
  \<open>get\<close> are the functions \<open>CONFIG_ADMIN_EMAIL\<close> ... further down.
\<close>

definition CONFIG_literal :: "externals \<Rightarrow> config \<Rightarrow> string \<Rightarrow> CONFIG_fields" where
  "CONFIG_literal x cfg custom_file =
     \<lparr> CUSTOM_FILE = custom_file,
       LISTEN_PORT = get cfg ''listen.port'',
       DATABASE_DBNAME = ''peertube'' @ toString (get cfg ''database.suffix''),
       DATABASE_HOSTNAME = get cfg ''database.hostname'',
       DATABASE_PORT = get cfg ''database.port'',
       DATABASE_USERNAME = get cfg ''database.username'',
       DATABASE_PASSWORD = get cfg ''database.password'',
       STORAGE_AVATARS_DIR = buildPath x (get cfg ''storage.avatars''),
       STORAGE_LOG_DIR = buildPath x (get cfg ''storage.logs''),
       STORAGE_VIDEOS_DIR = buildPath x (get cfg ''storage.videos''),
       STORAGE_THUMBNAILS_DIR = buildPath x (get cfg ''storage.thumbnails''),
       STORAGE_PREVIEWS_DIR = buildPath x (get cfg ''storage.previews''),
       STORAGE_TORRENTS_DIR = buildPath x (get cfg ''storage.torrents''),
       STORAGE_CACHE_DIR = buildPath x (get cfg ''storage.cache''),
       WEBSERVER_SCHEME = (if get cfg ''webserver.https'' = JBool True then ''https'' else ''http''),
       WEBSERVER_WS = (if get cfg ''webserver.https'' = JBool True then ''wss'' else ''ws''),
       WEBSERVER_HOSTNAME = get cfg ''webserver.hostname'',
       WEBSERVER_PORT = get cfg ''webserver.port'',
       WEBSERVER_URL = '''',
       WEBSERVER_HOST = '''' \<rparr>"

definition CONSTRAINTS_FIELDS_literal :: CONSTRAINTS_FIELDS_fields where
  "CONSTRAINTS_FIELDS_literal =
     \<lparr> USERS_USERNAME = obj [(''min'', 3), (''max'', 20)],
       USERS_PASSWORD = obj [(''min'', 6), (''max'', 255)],
       USERS_VIDEO_QUOTA = obj [(''min'', - 1)],
       VIDEO_ABUSES_REASON = obj [(''min'', 2), (''max'', 300)],
       VIDEO_CHANNELS_NAME = obj [(''min'', 3), (''max'', 120)],
       VIDEO_CHANNELS_DESCRIPTION = obj [(''min'', 3), (''max'', 250)],
       VIDEO_CHANNELS_URL = obj [(''min'', 3), (''max'', 2000)],
       VIDEOS_NAME = obj [(''min'', 3), (''max'', 120)],
       VIDEOS_TRUNCATED_DESCRIPTION = obj [(''min'', 3), (''max'', 250)],
       VIDEOS_DESCRIPTION = obj [(''min'', 3), (''max'', 3000)],
       VIDEOS_EXTNAME = [''.mp4'', ''.ogv'', ''.webm''],
       VIDEOS_INFO_HASH = obj [(''min'', 40), (''max'', 40)],
       VIDEOS_DURATION = obj [(''min'', 1)],
       VIDEOS_TAGS = obj [(''min'', 0), (''max'', 5)],
       VIDEOS_TAG = obj [(''min'', 2), (''max'', 30)],
       VIDEOS_THUMBNAIL = obj [(''min'', 2), (''max'', 30)],
       VIDEOS_THUMBNAIL_DATA = obj [(''min'', 0), (''max'', 20000)],
       VIDEOS_VIEWS = obj [(''min'', 0)],
       VIDEOS_LIKES = obj [(''min'', 0)],
       VIDEOS_DISLIKES = obj [(''min'', 0)],
       VIDEOS_FILE_SIZE = obj [(''min'', 10)],
       VIDEOS_URL = obj [(''min'', 3), (''max'', 2000)],
       ACTORS_PUBLIC_KEY = obj [(''min'', 10), (''max'', 5000)],
       ACTORS_PRIVATE_KEY = obj [(''min'', 10), (''max'', 5000)],
       ACTORS_URL = obj [(''min'', 3), (''max'', 2000)],
       ACTORS_AVATAR_EXTNAME = [''.png'', ''.jpeg'', ''.jpg''],
       ACTORS_AVATAR_FILE_SIZE = obj [(''max'', 2 * 1024 * 1024)],
       VIDEO_EVENTS_COUNT = obj [(''min'', 0)],
       VIDEO_COMMENTS_TEXT = obj [(''min'', 2), (''max'', 3000)],
       VIDEO_COMMENTS_URL = obj [(''min'', 3), (''max'', 2000)] \<rparr>"

definition VIDEO_RATE_TYPES_literal :: "(string \<times> string) list" where
  "VIDEO_RATE_TYPES_literal = obj [(''LIKE'', ''like''), (''DISLIKE'', ''dislike'')]"

definition VIDEO_CATEGORIES_literal :: "(string \<times> string) list" where
  "VIDEO_CATEGORIES_literal = obj
    [(''1'', ''Music''), (''2'', ''Films''), (''3'', ''Vehicles''), (''4'', ''Art''),
     (''5'', ''Sports''), (''6'', ''Travels''), (''7'', ''Gaming''), (''8'', ''People''),
     (''9'', ''Comedy''), (''10'', ''Entertainment''), (''11'', ''News''), (''12'', ''How To''),
     (''13'', ''Education''), (''14'', ''Activism''), (''15'', ''Science & Technology''),
     (''16'', ''Animals''), (''17'', ''Kids''), (''18'', ''Food'')]"

definition VIDEO_LICENCES_literal :: "(string \<times> string) list" where
  "VIDEO_LICENCES_literal = obj
    [(''1'', ''Attribution''),
     (''2'', ''Attribution - Share Alike''),
     (''3'', ''Attribution - No Derivatives''),
     (''4'', ''Attribution - Non Commercial''),
     (''5'', ''Attribution - Non Commercial - Share Alike''),
     (''6'', ''Attribution - Non Commercial - No Derivatives''),
     (''7'', ''Public Domain Dedication'')]"

definition VIDEO_LANGUAGES_literal :: "(string \<times> string) list" where
  "VIDEO_LANGUAGES_literal = obj
    [(''1'', ''English''), (''2'', ''Spanish''), (''3'', ''Mandarin''), (''4'', ''Hindi''),
     (''5'', ''Arabic''), (''6'', ''Portuguese''), (''7'', ''Bengali''), (''8'', ''Russian''),
     (''9'', ''Japanese''), (''10'', ''Punjabi''), (''11'', ''German''), (''12'', ''Korean''),
     (''13'', ''French''), (''14'', ''Italian'')]"

text \<open>The keys of \<open>VIDEO_PRIVACIES\<close> are computed: \<open>[VideoPrivacy.PUBLIC]\<close> and so on.\<close>

definition VIDEO_PRIVACIES_literal :: "externals \<Rightarrow> (string \<times> string) list" where
  "VIDEO_PRIVACIES_literal x = obj
    [(toString (VideoPrivacy_PUBLIC x), ''Public''),
     (toString (VideoPrivacy_UNLISTED x), ''Unlisted''),
     (toString (VideoPrivacy_PRIVATE x), ''Private'')]"

definition VIDEO_MIMETYPE_EXT_literal :: "(string \<times> string) list" where
  "VIDEO_MIMETYPE_EXT_literal = obj
    [(''video/webm'', ''.webm''), (''video/ogg'', ''.ogv''), (''video/mp4'', ''.mp4'')]"

definition AVATAR_MIMETYPE_EXT_literal :: "(string \<times> string) list" where
  "AVATAR_MIMETYPE_EXT_literal = obj
    [(''image/png'', ''.png''), (''image/jpg'', ''.jpg''), (''image/jpeg'', ''.jpg'')]"

definition ACTIVITY_PUB_literal :: ACTIVITY_PUB_fields where
  "ACTIVITY_PUB_literal =
     \<lparr> POTENTIAL_ACCEPT_HEADERS =
         [''application/activity+json'',
          ''application/ld+json'',
          ''application/ld+json; profile='' @ [CHR 0x22]
            @ ''https://www.w3.org/ns/activitystreams'' @ [CHR 0x22]],
       ACCEPT_HEADER = ''application/activity+json, application/ld+json'',
       PUBLIC = ''https://www.w3.org/ns/activitystreams#Public'',
       COLLECTION_ITEMS_PER_PAGE = 10,
       FETCH_PAGE_LIMIT = 100,
       MAX_HTTP_ATTEMPT = 5,
       URL_MIME_TYPES = obj
         [(''VIDEO'', [''video/mp4'', ''video/webm'', ''video/ogg'']),
          (''TORRENT'', [''application/x-bittorrent'']),
          (''MAGNET'', [''application/x-bittorrent;x-scheme-handler/magnet''])],
       MAX_RECURSION_COMMENTS = 100,
       ACTOR_REFRESH_INTERVAL = 3600 * 24 * 1000 \<rparr>"

definition ACTIVITY_PUB_ACTOR_TYPES_literal :: "(string \<times> string) list" where
  "ACTIVITY_PUB_ACTOR_TYPES_literal = obj
    [(''GROUP'', ''Group''), (''PERSON'', ''Person''), (''APPLICATION'', ''Application'')]"

definition STATIC_PATHS_literal :: "(string \<times> string) list" where
  "STATIC_PATHS_literal = obj
    [(''PREVIEWS'', ''/static/previews/''),
     (''THUMBNAILS'', ''/static/thumbnails/''),
     (''TORRENTS'', ''/static/torrents/''),
     (''WEBSEED'', ''/static/webseed/''),
     (''AVATARS'', ''/static/avatars/'')]"

text \<open>
  The bindings as they stand when control reaches the test-instance block: every
  top-level declaration of the module, in the order of the record.
\<close>

definition declared_constants :: "externals \<Rightarrow> config \<Rightarrow> string \<Rightarrow> module_state" where
  "declared_constants x cfg custom_file =
     \<lparr> config = cfg,
       API_VERSION = ''v1'',
       AVATARS_SIZE = obj [(''width'', 120), (''height'', 120)],
       ACCEPT_HEADERS =
         [''html'', ''application/json''] @ POTENTIAL_ACCEPT_HEADERS ACTIVITY_PUB_literal,
       BCRYPT_SALT_SIZE = 10,
       CACHE_DIRECTORIES_PREVIEWS =
         join x (STORAGE_CACHE_DIR (CONFIG_literal x cfg custom_file)) ''previews'',
       CONFIG = CONFIG_literal x cfg custom_file,
       CONSTRAINTS_FIELDS = CONSTRAINTS_FIELDS_literal,
       EMBED_SIZE = obj [(''width'', 560), (''height'', 315)],
       JOB_STATES = JOB_STATES_literal,
       JOBS_FETCH_LIMIT_PER_CYCLE = JOBS_FETCH_LIMIT_PER_CYCLE_literal,
       JOBS_FETCHING_INTERVAL = 60000,
       JOB_CATEGORIES = JOB_CATEGORIES_literal,
       LAST_MIGRATION_VERSION = 175,
       OAUTH_LIFETIME = OAUTH_LIFETIME_literal,
       OPENGRAPH_AND_OEMBED_COMMENT = ''<!-- open graph and oembed tags -->'',
       PAGINATION_COUNT_DEFAULT = 15,
       ACTOR_FOLLOW_SCORE = ACTOR_FOLLOW_SCORE_literal,
       PREVIEWS_SIZE = obj [(''width'', 560), (''height'', 315)],
       REMOTE_SCHEME = REMOTE_SCHEME_literal,
       FOLLOW_STATES = FOLLOW_STATES_literal,
       SERVER_ACTOR_NAME = ''peertube'',
       PRIVATE_RSA_KEY_SIZE = 2048,
       SORTABLE_COLUMNS = SORTABLE_COLUMNS_literal,
       STATIC_MAX_AGE = ''30d'',
       STATIC_PATHS = STATIC_PATHS_literal,
       ACTIVITY_PUB = ACTIVITY_PUB_literal,
       ACTIVITY_PUB_ACTOR_TYPES = ACTIVITY_PUB_ACTOR_TYPES_literal,
       THUMBNAILS_SIZE = obj [(''width'', 200), (''height'', 110)],
       VIDEO_CATEGORIES = VIDEO_CATEGORIES_literal,
       VIDEO_LANGUAGES = VIDEO_LANGUAGES_literal,
       VIDEO_PRIVACIES = VIDEO_PRIVACIES_literal x,
       VIDEO_LICENCES = VIDEO_LICENCES_literal,
       VIDEO_RATE_TYPES = VIDEO_RATE_TYPES_literal,
       VIDEO_MIMETYPE_EXT = VIDEO_MIMETYPE_EXT_literal,
       AVATAR_MIMETYPE_EXT = AVATAR_MIMETYPE_EXT_literal,
       SCHEDULER_INTERVAL = 60000 * 60 \<rparr>"

section \<open>The module's operations\<close>

text \<open>The block under \<open>if (isTestInstance() === true)\<close>, one assignment per line.\<close>

definition testInstanceOverrides :: "externals \<Rightarrow> module_state \<Rightarrow> module_state" where
  "testInstanceOverrides x st =
     (if isTestInstance x = True then
        (let st = st\<lparr>ACTOR_FOLLOW_SCORE := (ACTOR_FOLLOW_SCORE st)\<lparr>BASE := 20\<rparr>\<rparr>;
             st = st\<lparr>JOBS_FETCHING_INTERVAL := 1000\<rparr>;
             st = st\<lparr>REMOTE_SCHEME := (REMOTE_SCHEME st)\<lparr>HTTP := ''http''\<rparr>\<rparr>;
             st = st\<lparr>REMOTE_SCHEME := (REMOTE_SCHEME st)\<lparr>WS := ''ws''\<rparr>\<rparr>;
             st = st\<lparr>STATIC_MAX_AGE := ''0''\<rparr>;
             st = st\<lparr>ACTIVITY_PUB := (ACTIVITY_PUB st)\<lparr>COLLECTION_ITEMS_PER_PAGE := 2\<rparr>\<rparr>;
             st = st\<lparr>ACTIVITY_PUB := (ACTIVITY_PUB st)\<lparr>ACTOR_REFRESH_INTERVAL := 10 * 1000\<rparr>\<rparr>;
             st = st\<lparr>CONSTRAINTS_FIELDS := (CONSTRAINTS_FIELDS st)
                    \<lparr>ACTORS_AVATAR_FILE_SIZE :=
                       AList.update ''max'' (100 * 1024)
                         (ACTORS_AVATAR_FILE_SIZE (CONSTRAINTS_FIELDS st))\<rparr>\<rparr>;
             st = st\<lparr>SCHEDULER_INTERVAL := 10000\<rparr>
         in st)
      else st)"

definition updateWebserverConfig :: "externals \<Rightarrow> module_state \<Rightarrow> module_state" where
  "updateWebserverConfig x st =
     (let st = st\<lparr>CONFIG := (CONFIG st)\<lparr>WEBSERVER_URL :=
                 sanitizeUrl x (WEBSERVER_SCHEME (CONFIG st) @ ''://''
                   @ toString (WEBSERVER_HOSTNAME (CONFIG st)) @ '':''
                   @ toString (WEBSERVER_PORT (CONFIG st)))\<rparr>\<rparr>;
          st = st\<lparr>CONFIG := (CONFIG st)\<lparr>WEBSERVER_HOST :=
                 sanitizeHost x (toString (WEBSERVER_HOSTNAME (CONFIG st)) @ '':''
                   @ toString (WEBSERVER_PORT (CONFIG st))) (HTTP (REMOTE_SCHEME st))\<rparr>\<rparr>
      in st)"

text \<open>
  Loading the module: \<open>cfg\<close> is what \<open>require('config')\<close> evaluates to in the first
  statement. The only \<open>throw\<close> is the one of \<open>getLocalConfigFilePath\<close>, called while
  the literal of \<open>CONFIG\<close> is built.
\<close>

definition module_init :: "externals \<Rightarrow> node_process \<Rightarrow> config \<Rightarrow> error + module_state" where
  "module_init x proc cfg =
     (case getLocalConfigFilePath x proc cfg of
        Inl e \<Rightarrow> Inl e
      | Inr custom_file \<Rightarrow>
          Inr (updateWebserverConfig x
                 (testInstanceOverrides x (declared_constants x cfg custom_file))))"

text \<open>The accessors of \<open>CONFIG\<close> declared with \<open>get\<close>: each call reads \<open>config\<close>.\<close>

definition CONFIG_ADMIN_EMAIL :: "module_state \<Rightarrow> jsval" where
  "CONFIG_ADMIN_EMAIL st = get (config st) ''admin.email''"

definition CONFIG_SIGNUP_ENABLED :: "module_state \<Rightarrow> jsval" where
  "CONFIG_SIGNUP_ENABLED st = get (config st) ''signup.enabled''"

definition CONFIG_SIGNUP_LIMIT :: "module_state \<Rightarrow> jsval" where
  "CONFIG_SIGNUP_LIMIT st = get (config st) ''signup.limit''"

definition CONFIG_USER_VIDEO_QUOTA :: "module_state \<Rightarrow> jsval" where
  "CONFIG_USER_VIDEO_QUOTA st = get (config st) ''user.video_quota''"

definition CONFIG_TRANSCODING_ENABLED :: "module_state \<Rightarrow> jsval" where
  "CONFIG_TRANSCODING_ENABLED st = get (config st) ''transcoding.enabled''"

definition CONFIG_TRANSCODING_THREADS :: "module_state \<Rightarrow> jsval" where
  "CONFIG_TRANSCODING_THREADS st = get (config st) ''transcoding.threads''"

definition CONFIG_TRANSCODING_RESOLUTIONS_240p :: "module_state \<Rightarrow> jsval" where
  "CONFIG_TRANSCODING_RESOLUTIONS_240p st = get (config st) ''transcoding.resolutions.240p''"

definition CONFIG_TRANSCODING_RESOLUTIONS_360p :: "module_state \<Rightarrow> jsval" where
  "CONFIG_TRANSCODING_RESOLUTIONS_360p st = get (config st) ''transcoding.resolutions.360p''"

definition CONFIG_TRANSCODING_RESOLUTIONS_480p :: "module_state \<Rightarrow> jsval" where
  "CONFIG_TRANSCODING_RESOLUTIONS_480p st = get (config st) ''transcoding.resolutions.480p''"

definition CONFIG_TRANSCODING_RESOLUTIONS_720p :: "module_state \<Rightarrow> jsval" where
  "CONFIG_TRANSCODING_RESOLUTIONS_720p st = get (config st) ''transcoding.resolutions.720p''"

definition CONFIG_TRANSCODING_RESOLUTIONS_1080p :: "module_state \<Rightarrow> jsval" where
  "CONFIG_TRANSCODING_RESOLUTIONS_1080p st = get (config st) ''transcoding.resolutions.1080p''"

definition CONFIG_CACHE_PREVIEWS_SIZE :: "module_state \<Rightarrow> jsval" where
  "CONFIG_CACHE_PREVIEWS_SIZE st = get (config st) ''cache.previews.size''"

subsection \<open>reloadConfig\<close>

definition directory :: "externals \<Rightarrow> node_process \<Rightarrow> string" where
  "directory x proc =
     (if truthy (process_env proc ''NODE_CONFIG_DIR'')
      then (case process_env proc ''NODE_CONFIG_DIR'' of
              Some d \<Rightarrow> d | None \<Rightarrow> join x (root x) ''config'')
      else join x (root x) ''config'')"

text \<open>The \<open>for ... in require.cache\<close> loop of \<open>purge\<close>, over the keys of the cache.\<close>

fun purge_loop ::
  "string \<Rightarrow> string list \<Rightarrow> (string \<times> cached_module) list \<Rightarrow> (string \<times> cached_module) list"
where
  "purge_loop dir [] cache = cache"
| "purge_loop dir (fileName # rest) cache =
     (if - 1 = indexOf fileName dir then purge_loop dir rest cache
      else purge_loop dir rest (AList.delete fileName cache))"

definition purge :: "externals \<Rightarrow> node_process \<Rightarrow> node_process" where
  "purge x proc =
     (let cache = purge_loop (directory x proc) (map fst (require_cache proc)) (require_cache proc)
      in proc\<lparr>require_cache := AList.delete (require_resolve_config x) cache\<rparr>)"

text \<open>
  \<open>require('config')\<close>: the cached instance when the cache holds one under the
  resolved file name; otherwise the library is loaded, which yields \<open>fresh\<close> (the
  snapshot of the configuration files as they are now), and cached.
\<close>

definition require_config :: "externals \<Rightarrow> config \<Rightarrow> node_process \<Rightarrow> config \<times> node_process" where
  "require_config x fresh proc =
     (case map_of (require_cache proc) (require_resolve_config x) of
        Some (Config_module c) \<Rightarrow> (c, proc)
      | _ \<Rightarrow> (fresh, proc\<lparr>require_cache :=
                 AList.update (require_resolve_config x) (Config_module fresh) (require_cache proc)\<rparr>))"

definition reloadConfig ::
  "externals \<Rightarrow> config \<Rightarrow> node_process \<times> module_state \<Rightarrow> node_process \<times> module_state"
where
  "reloadConfig x fresh ps =
     (let proc = purge x (fst ps);
          (cfg, proc) = require_config x fresh proc;
          st = (snd ps)\<lparr>config := cfg\<rparr>
      in (proc, updateWebserverConfig x st))"

text \<open>
  The states of the module over the life of a process: the one loading leaves, and
  those any number of calls of \<open>reloadConfig\<close> lead to, whatever the environment and the
  configuration files are at each call.
\<close>

inductive reachable :: "externals \<Rightarrow> module_state \<Rightarrow> bool" for x :: externals where
  loaded: "module_init x proc cfg = Inr st \<Longrightarrow> reachable x st"
| reloaded: "reachable x st \<Longrightarrow> reachable x (snd (reloadConfig x fresh (proc, st)))"

section \<open>The enumeration tables\<close>

text \<open>The eleven tables the module exports as enumerations, in one list.\<close>

definition enumeration_tables :: "module_state \<Rightarrow> (string \<times> string) list list" where
  "enumeration_tables st =
     [VIDEO_CATEGORIES st, VIDEO_LICENCES st, VIDEO_LANGUAGES st, VIDEO_PRIVACIES st,
      VIDEO_RATE_TYPES st, VIDEO_MIMETYPE_EXT st, AVATAR_MIMETYPE_EXT st, JOB_STATES st,
      JOB_CATEGORIES st, FOLLOW_STATES st, ACTIVITY_PUB_ACTOR_TYPES st]"

section \<open>The sanitizers of core-utils, from the specification\<close>

definition strip_suffix :: "string \<Rightarrow> string \<Rightarrow> string" where
  "strip_suffix suf s =
     (if length suf \<le> length s \<and> drop (length s - length suf) s = suf
      then take (length s - length suf) s else s)"

text \<open>
  Modelled from the spec: \<open>sanitizeUrl\<close> of \<open>helpers/core-utils\<close>, which is not among
  the sources. The specification has it "strip default ports, normalize trailing
  slashes", and gives \<open>http://example.com\<close> for \<open>http\<close>, \<open>example.com\<close>, \<open>80\<close>:
  a trailing slash is dropped, then the port when it is the default one of the
  URL's scheme (80 for http, 443 for https).
\<close>

definition spec_sanitizeUrl :: "string \<Rightarrow> string" where
  "spec_sanitizeUrl url =
     (let u = strip_suffix ''/'' url in
      if prefix ''https://'' u then strip_suffix '':443'' u
      else if prefix ''http://'' u then strip_suffix '':80'' u
      else u)"

text \<open>
  Modelled from the spec: \<open>sanitizeHost\<close> of \<open>helpers/core-utils\<close>, which is not among
  the sources. The specification has it "strip default ports": the port is dropped
  from the host when it is the default one of the scheme given.
\<close>

definition spec_sanitizeHost :: "string \<Rightarrow> string \<Rightarrow> string" where
  "spec_sanitizeHost host remoteScheme =
     (if remoteScheme = ''https'' then strip_suffix '':443'' host
      else if remoteScheme = ''http'' then strip_suffix '':80'' host
      else host)"

section \<open>The local configuration file, as the specification words it\<close>

text \<open>
  The file name with a suffix for each of the two variables "when that variable is
  set", read literally: set to any string, the empty one included.
\<close>

definition stated_local_file_name :: "(string \<rightharpoonup> string) \<Rightarrow> string" where
  "stated_local_file_name env =
     ''local''
       @ (case env ''NODE_ENV'' of Some v \<Rightarrow> ''-'' @ v | None \<Rightarrow> [])
       @ (case env ''NODE_APP_INSTANCE'' of Some v \<Rightarrow> ''-'' @ v | None \<Rightarrow> [])
       @ ''.json''"

section \<open>A concrete installation\<close>

text \<open>
  An installation under \<open>/srv/peertube\<close>, to run the definitions on. The two path
  functions agree with Node's on the paths used below.
\<close>

definition example_externals :: "bool \<Rightarrow> externals" where
  "example_externals test =
     \<lparr> join = (\<lambda>a b. a @ ''/'' @ b),
       dirname = (\<lambda>p. rev (drop 1 (dropWhile (\<lambda>c. c \<noteq> CHR ''/'') (rev p)))),
       buildPath = (\<lambda>p. ''/srv/peertube/'' @ toString p),
       isTestInstance = test,
       root = ''/srv/peertube'',
       sanitizeHost = spec_sanitizeHost,
       sanitizeUrl = spec_sanitizeUrl,
       require_resolve_config = ''/srv/peertube/node_modules/config/lib/config.js'',
       VideoPrivacy_PUBLIC = JNum 1,
       VideoPrivacy_UNLISTED = JNum 2,
       VideoPrivacy_PRIVATE = JNum 3 \<rparr>"

definition example_settings :: "(string \<times> jsval) list" where
  "example_settings =
     [(''listen.port'', JNum 9000),
      (''webserver.https'', JBool False),
      (''webserver.hostname'', JStr ''example.com''),
      (''webserver.port'', JNum 80),
      (''database.hostname'', JStr ''localhost''),
      (''database.port'', JNum 5432),
      (''database.suffix'', JStr ''_prod''),
      (''database.username'', JStr ''peertube''),
      (''database.password'', JStr ''peertube''),
      (''storage.avatars'', JStr ''storage/avatars/''),
      (''storage.logs'', JStr ''storage/logs/''),
      (''storage.videos'', JStr ''storage/videos/''),
      (''storage.thumbnails'', JStr ''storage/thumbnails/''),
      (''storage.previews'', JStr ''storage/previews/''),
      (''storage.torrents'', JStr ''storage/torrents/''),
      (''storage.cache'', JStr ''storage/cache/''),
      (''admin.email'', JStr ''admin@example.com''),
      (''signup.enabled'', JBool False),
      (''signup.limit'', JNum 10),
      (''user.video_quota'', JNum (- 1)),
      (''transcoding.enabled'', JBool False),
      (''transcoding.threads'', JNum 2),
      (''transcoding.resolutions.240p'', JBool True),
      (''transcoding.resolutions.360p'', JBool True),
      (''transcoding.resolutions.480p'', JBool True),
      (''transcoding.resolutions.720p'', JBool True),
      (''transcoding.resolutions.1080p'', JBool True),
      (''cache.previews.size'', JNum 1)]"

text \<open>The settings above, with those of \<open>local\<close> taking precedence, from two source files.\<close>

definition example_config :: "(string \<times> jsval) list \<Rightarrow> config" where
  "example_config local =
     \<lparr> get = (\<lambda>k. case map_of (local @ example_settings) k of
                    Some v \<Rightarrow> v | None \<Rightarrow> JUndefined),
       getConfigSources =
         [\<lparr> name = ''/srv/peertube/config/default.yaml'' \<rparr>,
          \<lparr> name = ''/srv/peertube/config/production.yaml'' \<rparr>] \<rparr>"


definition example_process :: "(string \<rightharpoonup> string) \<Rightarrow> node_process" where
  "example_process env =
     \<lparr> process_env = env,
       require_cache =
         [(''/srv/peertube/dist/server.js'', Other_module),
          (''/srv/peertube/node_modules/config/lib/config.js'', Config_module (example_config [])),
          (''/srv/peertube/config/default.js'', Other_module)] \<rparr>"

text \<open>
  The state loading leaves in that installation, with \<open>NODE_ENV=production\<close> and the
  settings above under those of \<open>local\<close>.
\<close>

definition example_loaded :: "bool \<Rightarrow> (string \<times> jsval) list \<Rightarrow> module_state" where
  "example_loaded test local =
     updateWebserverConfig (example_externals test)
       (testInstanceOverrides (example_externals test)
          (declared_constants (example_externals test) (example_config local)
             ''/srv/peertube/config/local-production.json''))"

text \<open>The state loading leaves there when \<open>NODE_ENV\<close> is set to the empty string.\<close>

definition example_loaded_empty_env :: module_state where
  "example_loaded_empty_env =
     updateWebserverConfig (example_externals False)
       (testInstanceOverrides (example_externals False)
          (declared_constants (example_externals False) (example_config [])
             ''/srv/peertube/config/local.json''))"

section \<open>Basic facts\<close>

lemma digits_80: "digits 80 = ''80''"
  by (simp add: digits.simps digit_char_def)

lemma spec_sanitizeUrl_example: "spec_sanitizeUrl ''http://example.com:80'' = ''http://example.com''"
  by (simp add: spec_sanitizeUrl_def strip_suffix_def)

lemma spec_sanitizeHost_example:
  "spec_sanitizeHost ''example.com:80'' ''http'' = ''example.com''"
  "spec_sanitizeHost ''example.com:80'' ''https'' = ''example.com:80''"
  by (simp_all add: spec_sanitizeHost_def strip_suffix_def)

lemma distinct_keys_foldl:
  "distinct (map fst acc) \<Longrightarrow>
   distinct (map fst (foldl (\<lambda>acc (k, v). AList.update k v acc) acc es))"
  by (induction es arbitrary: acc) (auto simp: distinct_update)

lemma distinct_keys_obj: "distinct (map fst (obj es))"
  by (simp add: obj_def distinct_keys_foldl)

lemma updateWebserverConfig_eq:
  "updateWebserverConfig x st =
     st\<lparr>CONFIG := (CONFIG st)
        \<lparr>WEBSERVER_URL :=
           sanitizeUrl x (WEBSERVER_SCHEME (CONFIG st) @ ''://''
             @ toString (WEBSERVER_HOSTNAME (CONFIG st)) @ '':''
             @ toString (WEBSERVER_PORT (CONFIG st))),
         WEBSERVER_HOST :=
           sanitizeHost x (toString (WEBSERVER_HOSTNAME (CONFIG st)) @ '':''
             @ toString (WEBSERVER_PORT (CONFIG st))) (HTTP (REMOTE_SCHEME st))\<rparr>\<rparr>"
  by (simp add: updateWebserverConfig_def Let_def)

lemma updateWebserverConfig_idem:
  "updateWebserverConfig x (updateWebserverConfig x st) = updateWebserverConfig x st"
  by (simp add: updateWebserverConfig_eq)

lemma updateWebserverConfig_config:
  "updateWebserverConfig x (st\<lparr>config := c\<rparr>) = (updateWebserverConfig x st)\<lparr>config := c\<rparr>"
  by (simp add: updateWebserverConfig_eq)

lemma testInstanceOverrides_eq:
  "testInstanceOverrides x st =
     (if isTestInstance x then
        st\<lparr>ACTOR_FOLLOW_SCORE := (ACTOR_FOLLOW_SCORE st)\<lparr>BASE := 20\<rparr>,
           JOBS_FETCHING_INTERVAL := 1000,
           REMOTE_SCHEME := (REMOTE_SCHEME st)\<lparr>HTTP := ''http'', WS := ''ws''\<rparr>,
           STATIC_MAX_AGE := ''0'',
           ACTIVITY_PUB := (ACTIVITY_PUB st)
             \<lparr>COLLECTION_ITEMS_PER_PAGE := 2, ACTOR_REFRESH_INTERVAL := 10000\<rparr>,
           CONSTRAINTS_FIELDS := (CONSTRAINTS_FIELDS st)
             \<lparr>ACTORS_AVATAR_FILE_SIZE :=
                AList.update ''max'' 102400 (ACTORS_AVATAR_FILE_SIZE (CONSTRAINTS_FIELDS st))\<rparr>,
           SCHEDULER_INTERVAL := 10000\<rparr>
      else st)"
  by (simp add: testInstanceOverrides_def Let_def)

lemma getLocalConfigFilePath_eq:
  "getLocalConfigFilePath x proc cfg =
     (case getConfigSources cfg of
        [] \<Rightarrow> Inl (Error ''Invalid config source.'')
      | s # rest \<Rightarrow>
          Inr (join x (dirname x (name s))
                 (''local''
                    @ (case process_env proc ''NODE_ENV'' of
                         Some v \<Rightarrow> if v = [] then [] else ''-'' @ v | None \<Rightarrow> [])
                    @ (case process_env proc ''NODE_APP_INSTANCE'' of
                         Some v \<Rightarrow> if v = [] then [] else ''-'' @ v | None \<Rightarrow> [])
                    @ ''.json'')))"
  by (simp add: getLocalConfigFilePath_def Let_def split: list.splits option.splits)

lemma module_init_Inr:
  "module_init x proc cfg = Inr st \<longleftrightarrow>
     (\<exists>file. getLocalConfigFilePath x proc cfg = Inr file \<and>
        st = updateWebserverConfig x (testInstanceOverrides x (declared_constants x cfg file)))"
  by (auto simp: module_init_def split: sum.splits)

lemma purge_drops_config:
  "map_of (require_cache (purge x proc)) (require_resolve_config x) = None"
  by (simp add: purge_def Let_def delete_conv')

lemma reloadConfig_eq:
  "snd (reloadConfig x fresh (proc, st)) = updateWebserverConfig x (st\<lparr>config := fresh\<rparr>)"
  by (simp add: reloadConfig_def Let_def require_config_def purge_drops_config)

lemma reachable_shape:
  "reachable x st \<Longrightarrow>
   \<exists>cfg path c. st = (updateWebserverConfig x
                  (testInstanceOverrides x (declared_constants x cfg path)))\<lparr>config := c\<rparr>"
proof (induction rule: reachable.induct)
  case (loaded proc cfg st)
  then obtain path where
    st: "st = updateWebserverConfig x (testInstanceOverrides x (declared_constants x cfg path))"
    by (auto simp: module_init_Inr)
  have "st = st\<lparr>config := config st\<rparr>" by simp
  with st show ?case by metis
next
  case (reloaded st fresh proc)
  then obtain cfg path c where
    st: "st = (updateWebserverConfig x
           (testInstanceOverrides x (declared_constants x cfg path)))\<lparr>config := c\<rparr>"
    by blast
  have "snd (reloadConfig x fresh (proc, st)) =
        (updateWebserverConfig x
           (testInstanceOverrides x (declared_constants x cfg path)))\<lparr>config := fresh\<rparr>"
    by (simp add: reloadConfig_eq st updateWebserverConfig_config updateWebserverConfig_idem)
  then show ?case by blast
qed

lemma reachable_derived: "reachable x st \<Longrightarrow> updateWebserverConfig x st = st"
proof -
  assume "reachable x st"
  then obtain cfg path c where
    "st = (updateWebserverConfig x
       (testInstanceOverrides x (declared_constants x cfg path)))\<lparr>config := c\<rparr>"
    using reachable_shape by blast
  then show ?thesis
    by (simp add: updateWebserverConfig_config updateWebserverConfig_idem)
qed

lemma reachable_reload:
  "reachable x st \<Longrightarrow> snd (reloadConfig x fresh (proc, st)) = st\<lparr>config := fresh\<rparr>"
  by (simp add: reloadConfig_eq updateWebserverConfig_config reachable_derived)

lemma module_init_CONFIG:
  "module_init x proc cfg = Inr st \<Longrightarrow>
   \<exists>path. getLocalConfigFilePath x proc cfg = Inr path \<and> CONFIG st = (CONFIG_literal x cfg path)
      \<lparr>WEBSERVER_URL :=
         sanitizeUrl x (WEBSERVER_SCHEME (CONFIG_literal x cfg path) @ ''://''
           @ toString (WEBSERVER_HOSTNAME (CONFIG_literal x cfg path)) @ '':''
           @ toString (WEBSERVER_PORT (CONFIG_literal x cfg path))),
       WEBSERVER_HOST :=
         sanitizeHost x (toString (WEBSERVER_HOSTNAME (CONFIG_literal x cfg path)) @ '':''
           @ toString (WEBSERVER_PORT (CONFIG_literal x cfg path)))
           (if isTestInstance x then ''http'' else ''https'')\<rparr>"
  unfolding module_init_Inr
  by (auto simp add: updateWebserverConfig_eq testInstanceOverrides_eq
      declared_constants_def REMOTE_SCHEME_literal_def)

lemma module_init_webserver:
  assumes "module_init x proc cfg = Inr st"
  shows "WEBSERVER_SCHEME (CONFIG st) =
           (if get cfg ''webserver.https'' = JBool True then ''https'' else ''http'')"
    and "WEBSERVER_WS (CONFIG st) =
           (if get cfg ''webserver.https'' = JBool True then ''wss'' else ''ws'')"
    and "WEBSERVER_HOSTNAME (CONFIG st) = get cfg ''webserver.hostname''"
    and "WEBSERVER_PORT (CONFIG st) = get cfg ''webserver.port''"
    and "WEBSERVER_URL (CONFIG st) =
           sanitizeUrl x
             ((if get cfg ''webserver.https'' = JBool True then ''https'' else ''http'') @ ''://''
                @ toString (get cfg ''webserver.hostname'') @ '':''
                @ toString (get cfg ''webserver.port''))"
    and "WEBSERVER_HOST (CONFIG st) =
           sanitizeHost x
             (toString (get cfg ''webserver.hostname'') @ '':''
                @ toString (get cfg ''webserver.port''))
             (if isTestInstance x then ''http'' else ''https'')"
    and "LISTEN_PORT (CONFIG st) = get cfg ''listen.port''"
proof -
  from module_init_CONFIG [OF assms] obtain path where
    c: "CONFIG st = (CONFIG_literal x cfg path)
      \<lparr>WEBSERVER_URL :=
         sanitizeUrl x (WEBSERVER_SCHEME (CONFIG_literal x cfg path) @ ''://''
           @ toString (WEBSERVER_HOSTNAME (CONFIG_literal x cfg path)) @ '':''
           @ toString (WEBSERVER_PORT (CONFIG_literal x cfg path))),
       WEBSERVER_HOST :=
         sanitizeHost x (toString (WEBSERVER_HOSTNAME (CONFIG_literal x cfg path)) @ '':''
           @ toString (WEBSERVER_PORT (CONFIG_literal x cfg path)))
           (if isTestInstance x then ''http'' else ''https'')\<rparr>"
    by blast
  show "WEBSERVER_SCHEME (CONFIG st) =
           (if get cfg ''webserver.https'' = JBool True then ''https'' else ''http'')"
    by (simp add: c CONFIG_literal_def)
  show "WEBSERVER_WS (CONFIG st) =
           (if get cfg ''webserver.https'' = JBool True then ''wss'' else ''ws'')"
    by (simp add: c CONFIG_literal_def)
  show "WEBSERVER_HOSTNAME (CONFIG st) = get cfg ''webserver.hostname''"
    by (simp add: c CONFIG_literal_def)
  show "WEBSERVER_PORT (CONFIG st) = get cfg ''webserver.port''"
    by (simp add: c CONFIG_literal_def)
  show "WEBSERVER_URL (CONFIG st) =
           sanitizeUrl x
             ((if get cfg ''webserver.https'' = JBool True then ''https'' else ''http'') @ ''://''
                @ toString (get cfg ''webserver.hostname'') @ '':''
                @ toString (get cfg ''webserver.port''))"
    by (simp add: c CONFIG_literal_def)
  show "WEBSERVER_HOST (CONFIG st) =
           sanitizeHost x
             (toString (get cfg ''webserver.hostname'') @ '':''
                @ toString (get cfg ''webserver.port''))
             (if isTestInstance x then ''http'' else ''https'')"
    by (simp add: c CONFIG_literal_def)
  show "LISTEN_PORT (CONFIG st) = get cfg ''listen.port''"
    by (simp add: c CONFIG_literal_def)
qed

lemma module_init_constants:
  assumes "module_init x proc cfg = Inr st"
  shows "ACTOR_FOLLOW_SCORE st =
           ACTOR_FOLLOW_SCORE_literal\<lparr>BASE := if isTestInstance x then 20 else 1000\<rparr>"
    and "HTTP (REMOTE_SCHEME st) = (if isTestInstance x then ''http'' else ''https'')"
    and "config st = cfg"
proof -
  from assms obtain path where
    st: "st = updateWebserverConfig x (testInstanceOverrides x (declared_constants x cfg path))"
    by (auto simp: module_init_Inr)
  show "ACTOR_FOLLOW_SCORE st =
          ACTOR_FOLLOW_SCORE_literal\<lparr>BASE := if isTestInstance x then 20 else 1000\<rparr>"
    by (simp add: st updateWebserverConfig_eq testInstanceOverrides_eq declared_constants_def
        ACTOR_FOLLOW_SCORE_literal_def)
  show "HTTP (REMOTE_SCHEME st) = (if isTestInstance x then ''http'' else ''https'')"
    by (simp add: st updateWebserverConfig_eq testInstanceOverrides_eq declared_constants_def
        REMOTE_SCHEME_literal_def)
  show "config st = cfg"
    by (simp add: st updateWebserverConfig_eq testInstanceOverrides_eq declared_constants_def)
qed

lemma declared_constants_flag:
  "declared_constants (x\<lparr>isTestInstance := t\<rparr>) cfg path = declared_constants x cfg path"
  by (simp add: declared_constants_def CONFIG_literal_def VIDEO_PRIVACIES_literal_def)

lemma enumeration_tables_frame:
  "enumeration_tables (updateWebserverConfig x st) = enumeration_tables st"
  "enumeration_tables (testInstanceOverrides x st) = enumeration_tables st"
  "enumeration_tables (st\<lparr>config := c\<rparr>) = enumeration_tables st"
  by (simp_all add: enumeration_tables_def updateWebserverConfig_eq testInstanceOverrides_eq)

lemma enumeration_tables_declared:
  "enumeration_tables (declared_constants x cfg path) =
     [VIDEO_CATEGORIES_literal, VIDEO_LICENCES_literal, VIDEO_LANGUAGES_literal,
      VIDEO_PRIVACIES_literal x, VIDEO_RATE_TYPES_literal, VIDEO_MIMETYPE_EXT_literal,
      AVATAR_MIMETYPE_EXT_literal, JOB_STATES_literal, JOB_CATEGORIES_literal,
      FOLLOW_STATES_literal, ACTIVITY_PUB_ACTOR_TYPES_literal]"
  by (simp add: enumeration_tables_def declared_constants_def)

lemma reachable_tables:
  "reachable x st \<Longrightarrow>
   enumeration_tables st =
     [VIDEO_CATEGORIES_literal, VIDEO_LICENCES_literal, VIDEO_LANGUAGES_literal,
      VIDEO_PRIVACIES_literal x, VIDEO_RATE_TYPES_literal, VIDEO_MIMETYPE_EXT_literal,
      AVATAR_MIMETYPE_EXT_literal, JOB_STATES_literal, JOB_CATEGORIES_literal,
      FOLLOW_STATES_literal, ACTIVITY_PUB_ACTOR_TYPES_literal]"
proof -
  assume "reachable x st"
  then obtain cfg path c where
    "st = (updateWebserverConfig x
       (testInstanceOverrides x (declared_constants x cfg path)))\<lparr>config := c\<rparr>"
    using reachable_shape by blast
  then show ?thesis
    by (simp only: enumeration_tables_frame enumeration_tables_declared)
qed

lemma reachable_REMOTE_SCHEME:
  "reachable x st \<Longrightarrow> HTTP (REMOTE_SCHEME st) = (if isTestInstance x then ''http'' else ''https'')"
proof -
  assume "reachable x st"
  then obtain cfg path c where
    "st = (updateWebserverConfig x
       (testInstanceOverrides x (declared_constants x cfg path)))\<lparr>config := c\<rparr>"
    using reachable_shape by blast
  then show ?thesis
    by (simp add: updateWebserverConfig_eq testInstanceOverrides_eq declared_constants_def
        REMOTE_SCHEME_literal_def)
qed

lemma table_lengths:
  "length VIDEO_CATEGORIES_literal = 18"
  "length VIDEO_LICENCES_literal = 7"
  "length VIDEO_LANGUAGES_literal = 14"
  "length VIDEO_RATE_TYPES_literal = 2"
  "length VIDEO_MIMETYPE_EXT_literal = 3"
  "length AVATAR_MIMETYPE_EXT_literal = 3"
  "length JOB_STATES_literal = 4"
  "length JOB_CATEGORIES_literal = 2"
  "length FOLLOW_STATES_literal = 2"
  "length ACTIVITY_PUB_ACTOR_TYPES_literal = 3"
  by (simp_all add: obj_def VIDEO_CATEGORIES_literal_def VIDEO_LICENCES_literal_def
      VIDEO_LANGUAGES_literal_def VIDEO_RATE_TYPES_literal_def VIDEO_MIMETYPE_EXT_literal_def
      AVATAR_MIMETYPE_EXT_literal_def JOB_STATES_literal_def JOB_CATEGORIES_literal_def
      FOLLOW_STATES_literal_def ACTIVITY_PUB_ACTOR_TYPES_literal_def)

subsection \<open>The concrete installation\<close>

lemma example_module_init:
  "module_init (example_externals t) (example_process [''NODE_ENV'' \<mapsto> ''production''])
     (example_config local) = Inr (example_loaded t local)"
  by (simp add: module_init_def getLocalConfigFilePath_eq example_externals_def
      example_process_def example_config_def example_loaded_def)

lemma example_reachable: "reachable (example_externals t) (example_loaded t local)"
  using example_module_init by (rule reachable.loaded)

lemma example_get_first: "get (example_config ((k, v) # local)) k = v"
  by (simp add: example_config_def)

lemma example_get_default:
  "get (example_config []) ''webserver.https'' = JBool False"
  "get (example_config []) ''webserver.hostname'' = JStr ''example.com''"
  "get (example_config []) ''webserver.port'' = JNum 80"
  "get (example_config []) ''listen.port'' = JNum 9000"
  by (simp_all add: example_config_def example_settings_def)

lemma example_externals_simps:
  "isTestInstance (example_externals t) = t"
  "sanitizeUrl (example_externals t) = spec_sanitizeUrl"
  "sanitizeHost (example_externals t) = spec_sanitizeHost"
  "join (example_externals t) a b = a @ ''/'' @ b"
  "dirname (example_externals t) ''/srv/peertube/config/default.yaml'' = ''/srv/peertube/config''"
  by (simp_all add: example_externals_def)

lemma loaded_CUSTOM_FILE:
  "CUSTOM_FILE (CONFIG (updateWebserverConfig x
     (testInstanceOverrides x (declared_constants x cfg path)))) = path"
  by (simp add: updateWebserverConfig_eq testInstanceOverrides_eq declared_constants_def
      CONFIG_literal_def)

lemma table_keys_distinct:
  "distinct (map fst VIDEO_CATEGORIES_literal)"
  "distinct (map fst VIDEO_LICENCES_literal)"
  "distinct (map fst VIDEO_LANGUAGES_literal)"
  "distinct (map fst (VIDEO_PRIVACIES_literal x))"
  "distinct (map fst VIDEO_RATE_TYPES_literal)"
  "distinct (map fst VIDEO_MIMETYPE_EXT_literal)"
  "distinct (map fst AVATAR_MIMETYPE_EXT_literal)"
  "distinct (map fst JOB_STATES_literal)"
  "distinct (map fst JOB_CATEGORIES_literal)"
  "distinct (map fst FOLLOW_STATES_literal)"
  "distinct (map fst ACTIVITY_PUB_ACTOR_TYPES_literal)"
  by (simp_all only: distinct_keys_obj VIDEO_CATEGORIES_literal_def VIDEO_LICENCES_literal_def
      VIDEO_LANGUAGES_literal_def VIDEO_PRIVACIES_literal_def VIDEO_RATE_TYPES_literal_def
      VIDEO_MIMETYPE_EXT_literal_def AVATAR_MIMETYPE_EXT_literal_def JOB_STATES_literal_def
      JOB_CATEGORIES_literal_def FOLLOW_STATES_literal_def ACTIVITY_PUB_ACTOR_TYPES_literal_def)

lemma example_get_changed:
  "get (example_config [(''listen.port'', JNum 9001), (''admin.email'', JStr ''root@example.com'')])
     ''listen.port'' = JNum 9001"
  "get (example_config [(''listen.port'', JNum 9001), (''admin.email'', JStr ''root@example.com'')])
     ''admin.email'' = JStr ''root@example.com''"
  "get (example_config [(''listen.port'', JNum 9001), (''admin.email'', JStr ''root@example.com'')])
     ''webserver.https'' = JBool False"
  "get (example_config [(''listen.port'', JNum 9001), (''admin.email'', JStr ''root@example.com'')])
     ''webserver.hostname'' = JStr ''example.com''"
  "get (example_config [(''listen.port'', JNum 9001), (''admin.email'', JStr ''root@example.com'')])
     ''webserver.port'' = JNum 80"
  "get (example_config []) ''admin.email'' = JStr ''admin@example.com''"
  by (simp_all add: example_config_def example_settings_def)

lemma example_local_file:
  "getLocalConfigFilePath (example_externals t)
     (example_process [''NODE_ENV'' \<mapsto> ''production'', ''NODE_APP_INSTANCE'' \<mapsto> ''2''])
     (example_config local) = Inr ''/srv/peertube/config/local-production-2.json''"
  "getLocalConfigFilePath (example_externals t) (example_process [''NODE_ENV'' \<mapsto> ''''])
     (example_config local) = Inr ''/srv/peertube/config/local.json''"
  by (simp_all add: getLocalConfigFilePath_eq example_externals_def example_process_def
      example_config_def)

lemma example_process_simps: "process_env (example_process env) = env"
  by (simp add: example_process_def)

text \<open>
  \<open>reloadConfig\<close> on the cache of that installation: the module under the
  configuration directory is purged and the library is cached anew; with
  \<open>NODE_CONFIG_DIR\<close> pointing elsewhere only the library is.
\<close>

lemma example_reload_cache:
  "map fst (require_cache (fst (reloadConfig (example_externals t) fresh
      (example_process [''NODE_ENV'' \<mapsto> ''production''], st))))
   = [''/srv/peertube/dist/server.js'', ''/srv/peertube/node_modules/config/lib/config.js'']"
  by (simp add: reloadConfig_def purge_def directory_def require_config_def Let_def
      example_externals_def example_process_def)

lemma example_reload_cache_dir:
  "map fst (require_cache (fst (reloadConfig (example_externals t) fresh
      (example_process [''NODE_CONFIG_DIR'' \<mapsto> ''/etc/peertube''], st))))
   = [''/srv/peertube/dist/server.js'', ''/srv/peertube/config/default.js'',
      ''/srv/peertube/node_modules/config/lib/config.js'']"
  by (simp add: reloadConfig_def purge_def directory_def require_config_def Let_def
      example_externals_def example_process_def)

lemma example_module_init_empty_env:
  "module_init (example_externals False) (example_process [''NODE_ENV'' \<mapsto> ''''])
     (example_config []) = Inr example_loaded_empty_env"
  by (simp add: module_init_def example_local_file example_loaded_empty_env_def)

section \<open>The test-instance constants\<close>

text \<open>
  C5. On a test instance the exported \<open>ACTOR_FOLLOW_SCORE.BASE\<close> is 20; on any
  other instance it is its default, 1000.
\<close>

theorem follow_score_base:
  "module_init x proc cfg = Inr st \<Longrightarrow>
   BASE (ACTOR_FOLLOW_SCORE st) = (if isTestInstance x then 20 else 1000)"
  by (simp add: module_init_constants(1))

theorem follow_score_base_witness:
  "module_init (example_externals True) (example_process [''NODE_ENV'' \<mapsto> ''production''])
     (example_config []) = Inr (example_loaded True [])
   \<and> BASE (ACTOR_FOLLOW_SCORE (example_loaded True [])) = 20
   \<and> module_init (example_externals False) (example_process [''NODE_ENV'' \<mapsto> ''production''])
     (example_config []) = Inr (example_loaded False [])
   \<and> BASE (ACTOR_FOLLOW_SCORE (example_loaded False [])) = 1000"
proof -
  have "BASE (ACTOR_FOLLOW_SCORE (example_loaded True [])) = 20"
    using follow_score_base [OF example_module_init [of True "[]"]]
    by (simp add: example_externals_simps)
  moreover have "BASE (ACTOR_FOLLOW_SCORE (example_loaded False [])) = 1000"
    using follow_score_base [OF example_module_init [of False "[]"]]
    by (simp add: example_externals_simps)
  ultimately show ?thesis
    by (simp add: example_module_init)
qed

text \<open>
  C2. The block run on a test instance assigns nine constants
  (\<open>ACTOR_FOLLOW_SCORE.BASE\<close>, \<open>JOBS_FETCHING_INTERVAL\<close>, \<open>REMOTE_SCHEME.HTTP\<close>,
  \<open>REMOTE_SCHEME.WS\<close>, \<open>STATIC_MAX_AGE\<close>, \<open>ACTIVITY_PUB.COLLECTION_ITEMS_PER_PAGE\<close>,
  \<open>ACTIVITY_PUB.ACTOR_REFRESH_INTERVAL\<close>,
  \<open>CONSTRAINTS_FIELDS.ACTORS.AVATAR.FILE_SIZE.max\<close>, \<open>SCHEDULER_INTERVAL\<close>) and leaves
  every other exported binding, and every other field of the four objects it
  touches, as it found it, that is with the value the binding has on an instance that
  is not a test instance: there the block does nothing, and what the declarations
  before the block build does not depend on the kind of instance.
\<close>

theorem test_overrides_exactly:
  "(isTestInstance x \<longrightarrow>
      BASE (ACTOR_FOLLOW_SCORE (testInstanceOverrides x st)) = 20 \<and>
      JOBS_FETCHING_INTERVAL (testInstanceOverrides x st) = 1000 \<and>
      HTTP (REMOTE_SCHEME (testInstanceOverrides x st)) = ''http'' \<and>
      WS (REMOTE_SCHEME (testInstanceOverrides x st)) = ''ws'' \<and>
      STATIC_MAX_AGE (testInstanceOverrides x st) = ''0'' \<and>
      COLLECTION_ITEMS_PER_PAGE (ACTIVITY_PUB (testInstanceOverrides x st)) = 2 \<and>
      ACTOR_REFRESH_INTERVAL (ACTIVITY_PUB (testInstanceOverrides x st)) = 10000 \<and>
      map_of (ACTORS_AVATAR_FILE_SIZE (CONSTRAINTS_FIELDS (testInstanceOverrides x st))) ''max''
        = Some 102400 \<and>
      SCHEDULER_INTERVAL (testInstanceOverrides x st) = 10000 \<and>
      ACTOR_FOLLOW_SCORE (testInstanceOverrides x st) = (ACTOR_FOLLOW_SCORE st)\<lparr>BASE := 20\<rparr> \<and>
      REMOTE_SCHEME (testInstanceOverrides x st)
        = (REMOTE_SCHEME st)\<lparr>HTTP := ''http'', WS := ''ws''\<rparr> \<and>
      ACTIVITY_PUB (testInstanceOverrides x st)
        = (ACTIVITY_PUB st)\<lparr>COLLECTION_ITEMS_PER_PAGE := 2, ACTOR_REFRESH_INTERVAL := 10000\<rparr> \<and>
      CONSTRAINTS_FIELDS (testInstanceOverrides x st)
        = (CONSTRAINTS_FIELDS st)\<lparr>ACTORS_AVATAR_FILE_SIZE :=
            AList.update ''max'' 102400 (ACTORS_AVATAR_FILE_SIZE (CONSTRAINTS_FIELDS st))\<rparr> \<and>
      (\<forall>k. k \<noteq> ''max'' \<longrightarrow>
         map_of (ACTORS_AVATAR_FILE_SIZE (CONSTRAINTS_FIELDS (testInstanceOverrides x st))) k
           = map_of (ACTORS_AVATAR_FILE_SIZE (CONSTRAINTS_FIELDS st)) k) \<and>
      config (testInstanceOverrides x st) = config st \<and>
      API_VERSION (testInstanceOverrides x st) = API_VERSION st \<and>
      AVATARS_SIZE (testInstanceOverrides x st) = AVATARS_SIZE st \<and>
      ACCEPT_HEADERS (testInstanceOverrides x st) = ACCEPT_HEADERS st \<and>
      BCRYPT_SALT_SIZE (testInstanceOverrides x st) = BCRYPT_SALT_SIZE st \<and>
      CACHE_DIRECTORIES_PREVIEWS (testInstanceOverrides x st) = CACHE_DIRECTORIES_PREVIEWS st \<and>
      CONFIG (testInstanceOverrides x st) = CONFIG st \<and>
      EMBED_SIZE (testInstanceOverrides x st) = EMBED_SIZE st \<and>
      JOB_STATES (testInstanceOverrides x st) = JOB_STATES st \<and>
      JOBS_FETCH_LIMIT_PER_CYCLE (testInstanceOverrides x st) = JOBS_FETCH_LIMIT_PER_CYCLE st \<and>
      JOB_CATEGORIES (testInstanceOverrides x st) = JOB_CATEGORIES st \<and>
      LAST_MIGRATION_VERSION (testInstanceOverrides x st) = LAST_MIGRATION_VERSION st \<and>
      OAUTH_LIFETIME (testInstanceOverrides x st) = OAUTH_LIFETIME st \<and>
      OPENGRAPH_AND_OEMBED_COMMENT (testInstanceOverrides x st)
        = OPENGRAPH_AND_OEMBED_COMMENT st \<and>
      PAGINATION_COUNT_DEFAULT (testInstanceOverrides x st) = PAGINATION_COUNT_DEFAULT st \<and>
      PREVIEWS_SIZE (testInstanceOverrides x st) = PREVIEWS_SIZE st \<and>
      FOLLOW_STATES (testInstanceOverrides x st) = FOLLOW_STATES st \<and>
      SERVER_ACTOR_NAME (testInstanceOverrides x st) = SERVER_ACTOR_NAME st \<and>
      PRIVATE_RSA_KEY_SIZE (testInstanceOverrides x st) = PRIVATE_RSA_KEY_SIZE st \<and>
      SORTABLE_COLUMNS (testInstanceOverrides x st) = SORTABLE_COLUMNS st \<and>
      STATIC_PATHS (testInstanceOverrides x st) = STATIC_PATHS st \<and>
      ACTIVITY_PUB_ACTOR_TYPES (testInstanceOverrides x st) = ACTIVITY_PUB_ACTOR_TYPES st \<and>
      THUMBNAILS_SIZE (testInstanceOverrides x st) = THUMBNAILS_SIZE st \<and>
      VIDEO_CATEGORIES (testInstanceOverrides x st) = VIDEO_CATEGORIES st \<and>
      VIDEO_LANGUAGES (testInstanceOverrides x st) = VIDEO_LANGUAGES st \<and>
      VIDEO_PRIVACIES (testInstanceOverrides x st) = VIDEO_PRIVACIES st \<and>
      VIDEO_LICENCES (testInstanceOverrides x st) = VIDEO_LICENCES st \<and>
      VIDEO_RATE_TYPES (testInstanceOverrides x st) = VIDEO_RATE_TYPES st \<and>
      VIDEO_MIMETYPE_EXT (testInstanceOverrides x st) = VIDEO_MIMETYPE_EXT st \<and>
      AVATAR_MIMETYPE_EXT (testInstanceOverrides x st) = AVATAR_MIMETYPE_EXT st) \<and>
   (\<not> isTestInstance x \<longrightarrow> testInstanceOverrides x st = st) \<and>
   declared_constants (x\<lparr>isTestInstance := True\<rparr>) cfg path
     = declared_constants (x\<lparr>isTestInstance := False\<rparr>) cfg path"
  by (simp add: testInstanceOverrides_eq update_conv' declared_constants_flag)

theorem test_overrides_exactly_witness:
  "isTestInstance (example_externals True)
   \<and> BASE (ACTOR_FOLLOW_SCORE (declared_constants (example_externals True) (example_config [])
        ''/srv/peertube/config/local-production.json'')) = 1000
   \<and> BASE (ACTOR_FOLLOW_SCORE (testInstanceOverrides (example_externals True)
        (declared_constants (example_externals True) (example_config [])
           ''/srv/peertube/config/local-production.json''))) = 20
   \<and> PENALTY (ACTOR_FOLLOW_SCORE (testInstanceOverrides (example_externals True)
        (declared_constants (example_externals True) (example_config [])
           ''/srv/peertube/config/local-production.json''))) = - 10
   \<and> SCHEDULER_INTERVAL (testInstanceOverrides (example_externals True)
        (declared_constants (example_externals True) (example_config [])
           ''/srv/peertube/config/local-production.json'')) = 10000
   \<and> PAGINATION_COUNT_DEFAULT (testInstanceOverrides (example_externals True)
        (declared_constants (example_externals True) (example_config [])
           ''/srv/peertube/config/local-production.json'')) = 15
   \<and> map_of (ACTORS_AVATAR_FILE_SIZE (CONSTRAINTS_FIELDS (testInstanceOverrides
        (example_externals True) (declared_constants (example_externals True) (example_config [])
           ''/srv/peertube/config/local-production.json'')))) ''max'' = Some 102400
   \<and> \<not> isTestInstance (example_externals False)
   \<and> testInstanceOverrides (example_externals False)
        (declared_constants (example_externals False) (example_config [])
           ''/srv/peertube/config/local-production.json'')
      = declared_constants (example_externals False) (example_config [])
           ''/srv/peertube/config/local-production.json''"
proof -
  have d: "BASE (ACTOR_FOLLOW_SCORE (declared_constants (example_externals True) (example_config [])
        ''/srv/peertube/config/local-production.json'')) = 1000"
    "PENALTY (ACTOR_FOLLOW_SCORE (declared_constants (example_externals True) (example_config [])
        ''/srv/peertube/config/local-production.json'')) = - 10"
    "PAGINATION_COUNT_DEFAULT (declared_constants (example_externals True) (example_config [])
        ''/srv/peertube/config/local-production.json'') = 15"
    by (simp_all add: declared_constants_def ACTOR_FOLLOW_SCORE_literal_def)
  show ?thesis
    using test_overrides_exactly [of "example_externals True"
        "declared_constants (example_externals True) (example_config [])
           ''/srv/peertube/config/local-production.json''"]
      test_overrides_exactly [of "example_externals False"
        "declared_constants (example_externals False) (example_config [])
           ''/srv/peertube/config/local-production.json''"]
    by (simp add: example_externals_simps d update_conv')
qed

section \<open>The webserver fields\<close>

text \<open>
  C9. \<open>CONFIG.WEBSERVER.SCHEME\<close> is \<open>https\<close>, and \<open>CONFIG.WEBSERVER.WS\<close> is
  \<open>wss\<close>, exactly when the setting \<open>webserver.https\<close> is the boolean \<open>true\<close>; for
  every other value, the string \<open>'true'\<close> and the number 1 among them, they are
  \<open>http\<close> and \<open>ws\<close>.
\<close>

theorem webserver_scheme_strict:
  "module_init x proc cfg = Inr st \<Longrightarrow>
   (WEBSERVER_SCHEME (CONFIG st) = ''https'' \<longleftrightarrow> get cfg ''webserver.https'' = JBool True) \<and>
   (WEBSERVER_WS (CONFIG st) = ''wss'' \<longleftrightarrow> get cfg ''webserver.https'' = JBool True) \<and>
   (get cfg ''webserver.https'' \<noteq> JBool True \<longrightarrow>
      WEBSERVER_SCHEME (CONFIG st) = ''http'' \<and> WEBSERVER_WS (CONFIG st) = ''ws'')"
  by (simp add: module_init_webserver)

theorem webserver_scheme_strict_witness:
  "WEBSERVER_SCHEME (CONFIG (example_loaded False [(''webserver.https'', JBool True)])) = ''https''
   \<and> WEBSERVER_WS (CONFIG (example_loaded False [(''webserver.https'', JBool True)])) = ''wss''
   \<and> WEBSERVER_SCHEME (CONFIG (example_loaded False [(''webserver.https'', JStr ''true'')])) = ''http''
   \<and> WEBSERVER_WS (CONFIG (example_loaded False [(''webserver.https'', JStr ''true'')])) = ''ws''
   \<and> WEBSERVER_SCHEME (CONFIG (example_loaded False [(''webserver.https'', JNum 1)])) = ''http''
   \<and> WEBSERVER_WS (CONFIG (example_loaded False [(''webserver.https'', JNum 1)])) = ''ws''"
proof -
  have "WEBSERVER_SCHEME (CONFIG (example_loaded False [(''webserver.https'', JBool True)])) = ''https''
     \<and> WEBSERVER_WS (CONFIG (example_loaded False [(''webserver.https'', JBool True)])) = ''wss''"
    using webserver_scheme_strict
      [OF example_module_init [of False "[(''webserver.https'', JBool True)]"]]
    by (simp only: example_get_first simp_thms)
  moreover have
    "WEBSERVER_SCHEME (CONFIG (example_loaded False [(''webserver.https'', JStr ''true'')])) = ''http''
     \<and> WEBSERVER_WS (CONFIG (example_loaded False [(''webserver.https'', JStr ''true'')])) = ''ws''"
    using webserver_scheme_strict
      [OF example_module_init [of False "[(''webserver.https'', JStr ''true'')]"]]
    by (simp only: example_get_first jsval.distinct simp_thms)
  moreover have
    "WEBSERVER_SCHEME (CONFIG (example_loaded False [(''webserver.https'', JNum 1)])) = ''http''
     \<and> WEBSERVER_WS (CONFIG (example_loaded False [(''webserver.https'', JNum 1)])) = ''ws''"
    using webserver_scheme_strict
      [OF example_module_init [of False "[(''webserver.https'', JNum 1)]"]]
    by (simp only: example_get_first jsval.distinct simp_thms)
  ultimately show ?thesis by (simp only: simp_thms)
qed

text \<open>
  C10. The test-instance block runs before the first call of
  \<open>updateWebserverConfig\<close>: after loading, \<open>REMOTE_SCHEME.HTTP\<close> is \<open>http\<close> on a test
  instance and \<open>https\<close> otherwise, and \<open>CONFIG.WEBSERVER.HOST\<close> is \<open>sanitizeHost\<close>
  of \<open>hostname:port\<close> against that scheme.
\<close>

theorem webserver_host_scheme:
  "module_init x proc cfg = Inr st \<Longrightarrow>
   HTTP (REMOTE_SCHEME st) = (if isTestInstance x then ''http'' else ''https'') \<and>
   WEBSERVER_HOST (CONFIG st) =
     sanitizeHost x
       (toString (get cfg ''webserver.hostname'') @ '':'' @ toString (get cfg ''webserver.port''))
       (if isTestInstance x then ''http'' else ''https'')"
  by (simp add: module_init_webserver(6) module_init_constants(2))

theorem webserver_host_scheme_witness:
  "WEBSERVER_HOST (CONFIG (example_loaded True [])) = ''example.com''
   \<and> HTTP (REMOTE_SCHEME (example_loaded True [])) = ''http''
   \<and> WEBSERVER_HOST (CONFIG (example_loaded False [])) = ''example.com:80''
   \<and> HTTP (REMOTE_SCHEME (example_loaded False [])) = ''https''"
  using webserver_host_scheme [OF example_module_init [of True "[]"]]
    webserver_host_scheme [OF example_module_init [of False "[]"]]
  by (simp add: example_get_default example_externals_simps digits_80 spec_sanitizeHost_example)

text \<open>
  C3. With \<open>webserver.https = false\<close>, \<open>webserver.hostname = 'example.com'\<close> and
  \<open>webserver.port = 80\<close>, \<open>updateWebserverConfig\<close> hands \<open>http://example.com:80\<close> to
  \<open>sanitizeUrl\<close>, and with the sanitizer of the specification
  \<open>CONFIG.WEBSERVER.URL\<close> is \<open>http://example.com\<close>.
\<close>

theorem webserver_url_example:
  "sanitizeUrl x = spec_sanitizeUrl \<Longrightarrow>
   get cfg ''webserver.https'' = JBool False \<Longrightarrow>
   get cfg ''webserver.hostname'' = JStr ''example.com'' \<Longrightarrow>
   get cfg ''webserver.port'' = JNum 80 \<Longrightarrow>
   module_init x proc cfg = Inr st \<Longrightarrow>
   WEBSERVER_URL (CONFIG st) = sanitizeUrl x ''http://example.com:80'' \<and>
   WEBSERVER_URL (CONFIG st) = ''http://example.com''"
  by (simp add: module_init_webserver(5) digits_80 spec_sanitizeUrl_example)

theorem webserver_url_example_witness:
  "sanitizeUrl (example_externals False) = spec_sanitizeUrl
   \<and> get (example_config []) ''webserver.https'' = JBool False
   \<and> get (example_config []) ''webserver.hostname'' = JStr ''example.com''
   \<and> get (example_config []) ''webserver.port'' = JNum 80
   \<and> module_init (example_externals False) (example_process [''NODE_ENV'' \<mapsto> ''production''])
        (example_config []) = Inr (example_loaded False [])
   \<and> WEBSERVER_URL (CONFIG (example_loaded False [])) = ''http://example.com''"
  using webserver_url_example [OF example_externals_simps(2) example_get_default(1)
      example_get_default(2) example_get_default(3) example_module_init [of False "[]"]]
  by (simp add: example_externals_simps example_get_default example_module_init
      spec_sanitizeUrl_example)

section \<open>Loading the module\<close>



text \<open>
  C8 (amended). \<open>CONFIG.CUSTOM_FILE\<close> is \<open>join\<close> of the directory of the first
  configuration source and a file name: \<open>local\<close>, then \<open>-\<close> and \<open>NODE_ENV\<close> when
  that variable is set to a non-empty string, then \<open>-\<close> and \<open>NODE_APP_INSTANCE\<close> when
  that variable is set to a non-empty string, then \<open>.json\<close>. A variable set to the
  empty string adds nothing, as an unset one; where neither variable is the empty
  string this is the file name as the specification words it.
\<close>

theorem local_config_file_path:
  "getConfigSources cfg = s # rest \<Longrightarrow>
   (\<exists>st. module_init x proc cfg = Inr st \<and>
      CUSTOM_FILE (CONFIG st) =
        join x (dirname x (name s))
          (''local''
             @ (case process_env proc ''NODE_ENV'' of
                  Some v \<Rightarrow> if v = '''' then '''' else ''-'' @ v | None \<Rightarrow> '''')
             @ (case process_env proc ''NODE_APP_INSTANCE'' of
                  Some v \<Rightarrow> if v = '''' then '''' else ''-'' @ v | None \<Rightarrow> '''')
             @ ''.json'') \<and>
      (process_env proc ''NODE_ENV'' \<noteq> Some '''' \<and>
       process_env proc ''NODE_APP_INSTANCE'' \<noteq> Some '''' \<longrightarrow>
         CUSTOM_FILE (CONFIG st) =
           join x (dirname x (name s)) (stated_local_file_name (process_env proc))))"
  by (simp add: module_init_def getLocalConfigFilePath_eq loaded_CUSTOM_FILE
      stated_local_file_name_def split: option.splits)

theorem local_config_file_path_witness:
  "getConfigSources (example_config []) =
     \<lparr> name = ''/srv/peertube/config/default.yaml'' \<rparr>
       # [\<lparr> name = ''/srv/peertube/config/production.yaml'' \<rparr>]
   \<and> (\<exists>st. module_init (example_externals False)
          (example_process [''NODE_ENV'' \<mapsto> ''production'', ''NODE_APP_INSTANCE'' \<mapsto> ''2''])
          (example_config []) = Inr st
        \<and> CUSTOM_FILE (CONFIG st) = ''/srv/peertube/config/local-production-2.json'')"
proof -
  have s: "getConfigSources (example_config []) =
     \<lparr> name = ''/srv/peertube/config/default.yaml'' \<rparr>
       # [\<lparr> name = ''/srv/peertube/config/production.yaml'' \<rparr>]"
    by (simp add: example_config_def)
  show ?thesis
    using local_config_file_path [OF s, of "example_externals False"
        "example_process [''NODE_ENV'' \<mapsto> ''production'', ''NODE_APP_INSTANCE'' \<mapsto> ''2'']"]
    by (simp add: s example_externals_simps example_process_simps) blast
qed

text \<open>
  The claim as worded fails where \<open>NODE_ENV\<close> is set to the empty string: the code
  gives \<open>local.json\<close>, the wording \<open>local-.json\<close>.
\<close>

theorem local_config_file_path_counterexample:
  "module_init (example_externals False) (example_process [''NODE_ENV'' \<mapsto> ''''])
     (example_config []) = Inr example_loaded_empty_env
   \<and> CUSTOM_FILE (CONFIG example_loaded_empty_env) = ''/srv/peertube/config/local.json''
   \<and> join (example_externals False)
        (dirname (example_externals False) (name (hd (getConfigSources (example_config [])))))
        (stated_local_file_name (process_env (example_process [''NODE_ENV'' \<mapsto> ''''])))
      = ''/srv/peertube/config/local-.json''
   \<and> CUSTOM_FILE (CONFIG example_loaded_empty_env)
      \<noteq> join (example_externals False)
          (dirname (example_externals False) (name (hd (getConfigSources (example_config [])))))
          (stated_local_file_name (process_env (example_process [''NODE_ENV'' \<mapsto> ''''])))"
proof -
  have c: "CUSTOM_FILE (CONFIG example_loaded_empty_env) = ''/srv/peertube/config/local.json''"
    by (simp add: example_loaded_empty_env_def loaded_CUSTOM_FILE)
  have s: "join (example_externals False)
        (dirname (example_externals False) (name (hd (getConfigSources (example_config [])))))
        (stated_local_file_name (process_env (example_process [''NODE_ENV'' \<mapsto> ''''])))
      = ''/srv/peertube/config/local-.json''"
    by (simp add: example_externals_simps example_process_simps stated_local_file_name_def
        example_config_def)
  show ?thesis
    by (simp add: example_module_init_empty_env c s)
qed

section \<open>Deriving the URL and the host\<close>

text \<open>
  C6. \<open>updateWebserverConfig\<close> is idempotent, and in a state of the module it
  changes nothing: the URL and the host there are already the derived ones. The URL
  it derives depends on \<open>CONFIG.WEBSERVER.SCHEME\<close>, \<open>HOSTNAME\<close> and \<open>PORT\<close> only;
  so does the host, for states with the same \<open>REMOTE_SCHEME.HTTP\<close>, as the states of
  instances of one kind (test or not) are.
\<close>

theorem webserver_derivation_idempotent:
  "updateWebserverConfig x (updateWebserverConfig x st) = updateWebserverConfig x st \<and>
   (reachable x st \<longrightarrow> updateWebserverConfig x st = st) \<and>
   (WEBSERVER_SCHEME (CONFIG s1) = WEBSERVER_SCHEME (CONFIG s2) \<and>
    WEBSERVER_HOSTNAME (CONFIG s1) = WEBSERVER_HOSTNAME (CONFIG s2) \<and>
    WEBSERVER_PORT (CONFIG s1) = WEBSERVER_PORT (CONFIG s2) \<longrightarrow>
      WEBSERVER_URL (CONFIG (updateWebserverConfig x s1))
        = WEBSERVER_URL (CONFIG (updateWebserverConfig x s2)) \<and>
      (HTTP (REMOTE_SCHEME s1) = HTTP (REMOTE_SCHEME s2) \<longrightarrow>
         WEBSERVER_HOST (CONFIG (updateWebserverConfig x s1))
           = WEBSERVER_HOST (CONFIG (updateWebserverConfig x s2))) \<and>
      (reachable x s1 \<and> reachable x s2 \<longrightarrow>
         WEBSERVER_URL (CONFIG s1) = WEBSERVER_URL (CONFIG s2) \<and>
         WEBSERVER_HOST (CONFIG s1) = WEBSERVER_HOST (CONFIG s2)))"
proof (intro conjI impI)
  show "updateWebserverConfig x (updateWebserverConfig x st) = updateWebserverConfig x st"
    by (rule updateWebserverConfig_idem)
  show "reachable x st \<Longrightarrow> updateWebserverConfig x st = st"
    by (rule reachable_derived)
next
  assume t: "WEBSERVER_SCHEME (CONFIG s1) = WEBSERVER_SCHEME (CONFIG s2) \<and>
    WEBSERVER_HOSTNAME (CONFIG s1) = WEBSERVER_HOSTNAME (CONFIG s2) \<and>
    WEBSERVER_PORT (CONFIG s1) = WEBSERVER_PORT (CONFIG s2)"
  show u: "WEBSERVER_URL (CONFIG (updateWebserverConfig x s1))
        = WEBSERVER_URL (CONFIG (updateWebserverConfig x s2))"
    using t by (simp add: updateWebserverConfig_eq)
  show h: "WEBSERVER_HOST (CONFIG (updateWebserverConfig x s1))
           = WEBSERVER_HOST (CONFIG (updateWebserverConfig x s2))"
    if "HTTP (REMOTE_SCHEME s1) = HTTP (REMOTE_SCHEME s2)"
    using t that by (simp add: updateWebserverConfig_eq)
  assume r: "reachable x s1 \<and> reachable x s2"
  then have "HTTP (REMOTE_SCHEME s1) = HTTP (REMOTE_SCHEME s2)"
    using reachable_REMOTE_SCHEME [of x s1] reachable_REMOTE_SCHEME [of x s2] by simp
  from h [OF this] u r
  show "WEBSERVER_URL (CONFIG s1) = WEBSERVER_URL (CONFIG s2)"
    and "WEBSERVER_HOST (CONFIG s1) = WEBSERVER_HOST (CONFIG s2)"
    by (simp_all add: reachable_derived)
qed

theorem webserver_derivation_idempotent_witness:
  "reachable (example_externals False) (example_loaded False [])
   \<and> reachable (example_externals False)
       (example_loaded False [(''listen.port'', JNum 9001), (''admin.email'', JStr ''root@example.com'')])
   \<and> updateWebserverConfig (example_externals False) (example_loaded False [])
       = example_loaded False []
   \<and> WEBSERVER_URL (CONFIG (example_loaded False []))
       = WEBSERVER_URL (CONFIG (example_loaded False
           [(''listen.port'', JNum 9001), (''admin.email'', JStr ''root@example.com'')]))
   \<and> WEBSERVER_HOST (CONFIG (example_loaded False []))
       = WEBSERVER_HOST (CONFIG (example_loaded False
           [(''listen.port'', JNum 9001), (''admin.email'', JStr ''root@example.com'')]))"
proof -
  let ?s1 = "example_loaded False []"
  let ?s2 = "example_loaded False
    [(''listen.port'', JNum 9001), (''admin.email'', JStr ''root@example.com'')]"
  have t: "WEBSERVER_SCHEME (CONFIG ?s1) = WEBSERVER_SCHEME (CONFIG ?s2)"
    "WEBSERVER_HOSTNAME (CONFIG ?s1) = WEBSERVER_HOSTNAME (CONFIG ?s2)"
    "WEBSERVER_PORT (CONFIG ?s1) = WEBSERVER_PORT (CONFIG ?s2)"
    by (simp_all add: module_init_webserver [OF example_module_init] example_get_default
        example_get_changed)
  show ?thesis
    using webserver_derivation_idempotent [of "example_externals False" ?s1 ?s1 ?s2]
    by (simp add: t example_reachable)
qed

section \<open>Reloading the configuration\<close>

text \<open>
  C1 (amended). After \<open>reloadConfig\<close>, the module variable \<open>config\<close> is the freshly
  loaded snapshot, whatever \<open>require.cache\<close> held, and nothing else of the module's
  state has changed. So every accessor of \<open>CONFIG\<close> declared with \<open>get\<close>
  (\<open>ADMIN.EMAIL\<close>, \<open>SIGNUP.*\<close>, \<open>USER.VIDEO_QUOTA\<close>, \<open>TRANSCODING.*\<close>,
  \<open>CACHE.PREVIEWS.SIZE\<close>) returns the setting of the new snapshot, and every plain
  field (\<open>CUSTOM_FILE\<close>, \<open>LISTEN.PORT\<close>, \<open>DATABASE.*\<close>, \<open>STORAGE.*\<close>,
  \<open>WEBSERVER.*\<close> with the derived \<open>URL\<close> and \<open>HOST\<close>) keeps the value it had
  before the call, which is the one computed when the module was loaded.
\<close>

theorem reload_accessors:
  "reachable x st \<Longrightarrow>
   snd (reloadConfig x fresh (proc, st)) = st\<lparr>config := fresh\<rparr> \<and>
   config (snd (reloadConfig x fresh (proc, st))) = fresh \<and>
   CONFIG (snd (reloadConfig x fresh (proc, st))) = CONFIG st \<and>
   CONFIG_ADMIN_EMAIL (snd (reloadConfig x fresh (proc, st))) = get fresh ''admin.email'' \<and>
   CONFIG_SIGNUP_ENABLED (snd (reloadConfig x fresh (proc, st))) = get fresh ''signup.enabled'' \<and>
   CONFIG_SIGNUP_LIMIT (snd (reloadConfig x fresh (proc, st))) = get fresh ''signup.limit'' \<and>
   CONFIG_USER_VIDEO_QUOTA (snd (reloadConfig x fresh (proc, st)))
     = get fresh ''user.video_quota'' \<and>
   CONFIG_TRANSCODING_ENABLED (snd (reloadConfig x fresh (proc, st)))
     = get fresh ''transcoding.enabled'' \<and>
   CONFIG_TRANSCODING_THREADS (snd (reloadConfig x fresh (proc, st)))
     = get fresh ''transcoding.threads'' \<and>
   CONFIG_TRANSCODING_RESOLUTIONS_240p (snd (reloadConfig x fresh (proc, st)))
     = get fresh ''transcoding.resolutions.240p'' \<and>
   CONFIG_TRANSCODING_RESOLUTIONS_360p (snd (reloadConfig x fresh (proc, st)))
     = get fresh ''transcoding.resolutions.360p'' \<and>
   CONFIG_TRANSCODING_RESOLUTIONS_480p (snd (reloadConfig x fresh (proc, st)))
     = get fresh ''transcoding.resolutions.480p'' \<and>
   CONFIG_TRANSCODING_RESOLUTIONS_720p (snd (reloadConfig x fresh (proc, st)))
     = get fresh ''transcoding.resolutions.720p'' \<and>
   CONFIG_TRANSCODING_RESOLUTIONS_1080p (snd (reloadConfig x fresh (proc, st)))
     = get fresh ''transcoding.resolutions.1080p'' \<and>
   CONFIG_CACHE_PREVIEWS_SIZE (snd (reloadConfig x fresh (proc, st)))
     = get fresh ''cache.previews.size''"
  by (simp add: reachable_reload CONFIG_ADMIN_EMAIL_def CONFIG_SIGNUP_ENABLED_def
      CONFIG_SIGNUP_LIMIT_def CONFIG_USER_VIDEO_QUOTA_def CONFIG_TRANSCODING_ENABLED_def
      CONFIG_TRANSCODING_THREADS_def CONFIG_TRANSCODING_RESOLUTIONS_240p_def
      CONFIG_TRANSCODING_RESOLUTIONS_360p_def CONFIG_TRANSCODING_RESOLUTIONS_480p_def
      CONFIG_TRANSCODING_RESOLUTIONS_720p_def CONFIG_TRANSCODING_RESOLUTIONS_1080p_def
      CONFIG_CACHE_PREVIEWS_SIZE_def)

theorem reload_accessors_witness:
  "reachable (example_externals False) (example_loaded False [])
   \<and> CONFIG_ADMIN_EMAIL (example_loaded False []) = JStr ''admin@example.com''
   \<and> CONFIG_ADMIN_EMAIL (snd (reloadConfig (example_externals False)
        (example_config [(''listen.port'', JNum 9001), (''admin.email'', JStr ''root@example.com'')])
        (example_process [''NODE_ENV'' \<mapsto> ''production''], example_loaded False [])))
      = JStr ''root@example.com''
   \<and> CONFIG (snd (reloadConfig (example_externals False)
        (example_config [(''listen.port'', JNum 9001), (''admin.email'', JStr ''root@example.com'')])
        (example_process [''NODE_ENV'' \<mapsto> ''production''], example_loaded False [])))
      = CONFIG (example_loaded False [])"
  using reload_accessors [OF example_reachable [of False "[]"],
      of "example_config [(''listen.port'', JNum 9001), (''admin.email'', JStr ''root@example.com'')]"
         "example_process [''NODE_ENV'' \<mapsto> ''production'']"]
  by (simp add: example_reachable example_get_changed CONFIG_ADMIN_EMAIL_def
      module_init_constants(3) [OF example_module_init])

text \<open>
  The claim as worded fails for the plain fields. With \<open>listen.port\<close> 9000 when the
  module is loaded, and 9001 (and another \<open>admin.email\<close>) in the files when
  \<open>reloadConfig\<close> runs, \<open>CONFIG.LISTEN.PORT\<close> is still 9000 after the call while
  \<open>CONFIG.ADMIN.EMAIL\<close> is the new address.
\<close>

theorem reload_accessors_counterexample:
  "module_init (example_externals False) (example_process [''NODE_ENV'' \<mapsto> ''production''])
     (example_config []) = Inr (example_loaded False [])
   \<and> get (example_config [(''listen.port'', JNum 9001), (''admin.email'', JStr ''root@example.com'')])
        ''listen.port'' = JNum 9001
   \<and> LISTEN_PORT (CONFIG (snd (reloadConfig (example_externals False)
        (example_config [(''listen.port'', JNum 9001), (''admin.email'', JStr ''root@example.com'')])
        (example_process [''NODE_ENV'' \<mapsto> ''production''], example_loaded False []))))
      = JNum 9000
   \<and> LISTEN_PORT (CONFIG (snd (reloadConfig (example_externals False)
        (example_config [(''listen.port'', JNum 9001), (''admin.email'', JStr ''root@example.com'')])
        (example_process [''NODE_ENV'' \<mapsto> ''production''], example_loaded False []))))
      \<noteq> get (example_config
          [(''listen.port'', JNum 9001), (''admin.email'', JStr ''root@example.com'')])
          ''listen.port''
   \<and> CONFIG_ADMIN_EMAIL (snd (reloadConfig (example_externals False)
        (example_config [(''listen.port'', JNum 9001), (''admin.email'', JStr ''root@example.com'')])
        (example_process [''NODE_ENV'' \<mapsto> ''production''], example_loaded False [])))
      = JStr ''root@example.com''"
  by (simp add: example_module_init example_get_changed example_get_default
      reachable_reload [OF example_reachable] CONFIG_ADMIN_EMAIL_def
      module_init_webserver(7) [OF example_module_init])

section \<open>The enumeration tables over the life of a process\<close>

text \<open>
  C7. In every state of the module, each of the eleven enumeration tables has no key
  twice, and holds what its literal built: the ten tables with literal keys have as many
  entries as their literals have lines, so no line repeats a key, and the keys of
  \<open>VIDEO_PRIVACIES\<close> are those its three computed keys give. None of
  \<open>updateWebserverConfig\<close>, \<open>reloadConfig\<close> and the test-instance block changes a
  table.
\<close>

theorem enumeration_tables_stable:
  "reachable x st \<Longrightarrow>
   list_all (\<lambda>T. distinct (map fst T)) (enumeration_tables st) \<and>
   enumeration_tables st =
     [VIDEO_CATEGORIES_literal, VIDEO_LICENCES_literal, VIDEO_LANGUAGES_literal,
      VIDEO_PRIVACIES_literal x, VIDEO_RATE_TYPES_literal, VIDEO_MIMETYPE_EXT_literal,
      AVATAR_MIMETYPE_EXT_literal, JOB_STATES_literal, JOB_CATEGORIES_literal,
      FOLLOW_STATES_literal, ACTIVITY_PUB_ACTOR_TYPES_literal] \<and>
   map length
     [VIDEO_CATEGORIES st, VIDEO_LICENCES st, VIDEO_LANGUAGES st, VIDEO_RATE_TYPES st,
      VIDEO_MIMETYPE_EXT st, AVATAR_MIMETYPE_EXT st, JOB_STATES st, JOB_CATEGORIES st,
      FOLLOW_STATES st, ACTIVITY_PUB_ACTOR_TYPES st]
     = [18, 7, 14, 2, 3, 3, 4, 2, 2, 3] \<and>
   enumeration_tables (updateWebserverConfig x st) = enumeration_tables st \<and>
   enumeration_tables (snd (reloadConfig x fresh (proc, st))) = enumeration_tables st \<and>
   enumeration_tables (testInstanceOverrides x st) = enumeration_tables st"
proof -
  assume r: "reachable x st"
  note t = reachable_tables [OF r]
  from t have e:
    "VIDEO_CATEGORIES st = VIDEO_CATEGORIES_literal" "VIDEO_LICENCES st = VIDEO_LICENCES_literal"
    "VIDEO_LANGUAGES st = VIDEO_LANGUAGES_literal" "VIDEO_RATE_TYPES st = VIDEO_RATE_TYPES_literal"
    "VIDEO_MIMETYPE_EXT st = VIDEO_MIMETYPE_EXT_literal"
    "AVATAR_MIMETYPE_EXT st = AVATAR_MIMETYPE_EXT_literal" "JOB_STATES st = JOB_STATES_literal"
    "JOB_CATEGORIES st = JOB_CATEGORIES_literal" "FOLLOW_STATES st = FOLLOW_STATES_literal"
    "ACTIVITY_PUB_ACTOR_TYPES st = ACTIVITY_PUB_ACTOR_TYPES_literal"
    by (simp_all add: enumeration_tables_def)
  have "list_all (\<lambda>T. distinct (map fst T)) (enumeration_tables st)"
    by (simp add: t table_keys_distinct)
  moreover have "map length
     [VIDEO_CATEGORIES st, VIDEO_LICENCES st, VIDEO_LANGUAGES st, VIDEO_RATE_TYPES st,
      VIDEO_MIMETYPE_EXT st, AVATAR_MIMETYPE_EXT st, JOB_STATES st, JOB_CATEGORIES st,
      FOLLOW_STATES st, ACTIVITY_PUB_ACTOR_TYPES st]
     = [18, 7, 14, 2, 3, 3, 4, 2, 2, 3]"
    by (simp add: e table_lengths)
  moreover have "enumeration_tables (snd (reloadConfig x fresh (proc, st))) = enumeration_tables st"
    by (simp add: reachable_reload [OF r] enumeration_tables_frame)
  ultimately show ?thesis
    using t by (simp add: enumeration_tables_frame)
qed

theorem enumeration_tables_stable_witness:
  "reachable (example_externals True) (example_loaded True [])
   \<and> list_all (\<lambda>T. distinct (map fst T)) (enumeration_tables (example_loaded True []))
   \<and> VIDEO_PRIVACIES (example_loaded True [])
       = [(''1'', ''Public''), (''2'', ''Unlisted''), (''3'', ''Private'')]
   \<and> length (VIDEO_CATEGORIES (example_loaded True [])) = 18
   \<and> enumeration_tables (snd (reloadConfig (example_externals True)
        (example_config [(''listen.port'', JNum 9001), (''admin.email'', JStr ''root@example.com'')])
        (example_process [''NODE_ENV'' \<mapsto> ''production''], example_loaded True [])))
      = enumeration_tables (example_loaded True [])"
proof -
  have p: "VIDEO_PRIVACIES_literal (example_externals True)
       = [(''1'', ''Public''), (''2'', ''Unlisted''), (''3'', ''Private'')]"
    by (simp add: VIDEO_PRIVACIES_literal_def obj_def example_externals_def digits.simps
        digit_char_def)
  note th = enumeration_tables_stable [OF example_reachable [of True "[]"],
      of "example_config [(''listen.port'', JNum 9001), (''admin.email'', JStr ''root@example.com'')]"
         "example_process [''NODE_ENV'' \<mapsto> ''production'']"]
  from th have a: "list_all (\<lambda>T. distinct (map fst T)) (enumeration_tables (example_loaded True []))"
    by (rule conjunct1)
  from th have "enumeration_tables (example_loaded True []) =
     [VIDEO_CATEGORIES_literal, VIDEO_LICENCES_literal, VIDEO_LANGUAGES_literal,
      VIDEO_PRIVACIES_literal (example_externals True), VIDEO_RATE_TYPES_literal,
      VIDEO_MIMETYPE_EXT_literal, AVATAR_MIMETYPE_EXT_literal, JOB_STATES_literal,
      JOB_CATEGORIES_literal, FOLLOW_STATES_literal, ACTIVITY_PUB_ACTOR_TYPES_literal]"
    by blast
  then have b: "VIDEO_PRIVACIES (example_loaded True [])
       = [(''1'', ''Public''), (''2'', ''Unlisted''), (''3'', ''Private'')]"
    by (simp add: enumeration_tables_def p)
  from th have "map length
     [VIDEO_CATEGORIES (example_loaded True []), VIDEO_LICENCES (example_loaded True []),
      VIDEO_LANGUAGES (example_loaded True []), VIDEO_RATE_TYPES (example_loaded True []),
      VIDEO_MIMETYPE_EXT (example_loaded True []), AVATAR_MIMETYPE_EXT (example_loaded True []),
      JOB_STATES (example_loaded True []), JOB_CATEGORIES (example_loaded True []),
      FOLLOW_STATES (example_loaded True []), ACTIVITY_PUB_ACTOR_TYPES (example_loaded True [])]
     = [18, 7, 14, 2, 3, 3, 4, 2, 2, 3]"
    by blast
  then have c: "length (VIDEO_CATEGORIES (example_loaded True [])) = 18"
    by simp
  from th have d: "enumeration_tables (snd (reloadConfig (example_externals True)
        (example_config [(''listen.port'', JNum 9001), (''admin.email'', JStr ''root@example.com'')])
        (example_process [''NODE_ENV'' \<mapsto> ''production''], example_loaded True [])))
      = enumeration_tables (example_loaded True [])"
    by blast
  from a b c d example_reachable [of True "[]"] show ?thesis
    by (simp only: simp_thms)
qed

end
